theory Spec2Isabelle
  imports Complex_Main "HOL-Library.Product_Lexorder" "HOL-Library.Multiset"
begin

section \<open>Python text and the runtime's Unicode tables\<close>

text \<open>
  A Python \<^verbatim>\<open>str\<close> is a sequence of Unicode code points; it is modelled as a list of
  natural numbers.  ASCII literals of the source are written \<open>asc ''...''\<close>.
  Python floats are idealised as real numbers: every comparison, sum and product of the
  source is the exact one.
\<close>

type_synonym pystr = "nat list"

definition asc :: "string \<Rightarrow> pystr" where
  "asc s = map of_char s"

text \<open>
  What \<^verbatim>\<open>str.lower\<close>, \<^verbatim>\<open>str.isspace\<close>, \<^verbatim>\<open>\d\<close>, \<^verbatim>\<open>\s\<close>, \<^verbatim>\<open>\w\<close>,
  \<^verbatim>\<open>str.istitle\<close>, ... answer depends on the Unicode character database compiled into
  the interpreter.  The database is a parameter of the model: every function that consults
  it takes a record of its tables, and every theorem holds for all tables.
\<close>

record ucd =
  u_digit :: "nat \<Rightarrow> bool"      \<comment> \<open>decimal digit: \<^verbatim>\<open>\d\<close>\<close>
  u_space :: "nat \<Rightarrow> bool"      \<comment> \<open>whitespace: \<^verbatim>\<open>\s\<close>, \<^verbatim>\<open>strip()\<close>, \<^verbatim>\<open>split()\<close>\<close>
  u_alnum :: "nat \<Rightarrow> bool"      \<comment> \<open>\<^verbatim>\<open>isalnum()\<close> of one character\<close>
  u_upper :: "nat \<Rightarrow> bool"      \<comment> \<open>uppercase character\<close>
  u_lower :: "nat \<Rightarrow> bool"      \<comment> \<open>lowercase character\<close>
  u_title :: "nat \<Rightarrow> bool"      \<comment> \<open>titlecase character\<close>
  u_tolower :: "pystr \<Rightarrow> pystr" \<comment> \<open>\<^verbatim>\<open>str.lower()\<close>\<close>
  u_nfc :: "pystr \<Rightarrow> pystr"     \<comment> \<open>\<^verbatim>\<open>unicodedata.normalize('NFC', _)\<close>\<close>

text \<open>The tables restricted to ASCII, where they are the same in every interpreter.\<close>

definition ascii_ucd :: ucd where
  "ascii_ucd = \<lparr>
     u_digit = (\<lambda>c. 48 \<le> c \<and> c \<le> 57),
     u_space = (\<lambda>c. (9 \<le> c \<and> c \<le> 13) \<or> (28 \<le> c \<and> c \<le> 32)),
     u_alnum = (\<lambda>c. (48 \<le> c \<and> c \<le> 57) \<or> (65 \<le> c \<and> c \<le> 90) \<or> (97 \<le> c \<and> c \<le> 122)),
     u_upper = (\<lambda>c. 65 \<le> c \<and> c \<le> 90),
     u_lower = (\<lambda>c. 97 \<le> c \<and> c \<le> 122),
     u_title = (\<lambda>c. False),
     u_tolower = map (\<lambda>c. if 65 \<le> c \<and> c \<le> 90 then c + 32 else c),
     u_nfc = (\<lambda>s. s) \<rparr>"

section \<open>Methods of \<^verbatim>\<open>str\<close>\<close>

definition strip :: "ucd \<Rightarrow> pystr \<Rightarrow> pystr" where
  "strip rt s = rev (dropWhile (u_space rt) (rev (dropWhile (u_space rt) s)))"

text \<open>\<^verbatim>\<open>s.split()\<close>: the maximal runs of characters that are not whitespace.\<close>

fun split_acc :: "ucd \<Rightarrow> pystr \<Rightarrow> pystr \<Rightarrow> pystr list" where
  "split_acc rt w [] = (if w = [] then [] else [rev w])"
| "split_acc rt w (c # cs) =
     (if u_space rt c then (if w = [] then split_acc rt [] cs else rev w # split_acc rt [] cs)
      else split_acc rt (c # w) cs)"

definition split :: "ucd \<Rightarrow> pystr \<Rightarrow> pystr list" where
  "split rt s = split_acc rt [] s"

text \<open>\<^verbatim>\<open>' '.join(ws)\<close>\<close>

fun join :: "pystr list \<Rightarrow> pystr" where
  "join [] = []"
| "join [w] = w"
| "join (w # ws) = w @ 32 # join ws"

definition startswith :: "pystr \<Rightarrow> pystr \<Rightarrow> bool" where
  "startswith s p = (take (length p) s = p)"

definition endswith :: "pystr \<Rightarrow> pystr \<Rightarrow> bool" where
  "endswith s p = (length p \<le> length s \<and> drop (length s - length p) s = p)"

text \<open>\<^verbatim>\<open>p in s\<close> for strings.\<close>

fun contains :: "pystr \<Rightarrow> pystr \<Rightarrow> bool" where
  "contains [] p = (p = [])"
| "contains (c # cs) p = (startswith (c # cs) p \<or> contains cs p)"

text \<open>\<^verbatim>\<open>s.count(c)\<close> for a single character.\<close>

definition count_chr :: "pystr \<Rightarrow> nat \<Rightarrow> nat" where
  "count_chr s c = length (filter (\<lambda>x. x = c) s)"

text \<open>
  \<^verbatim>\<open>s.count(p)\<close> for a non-empty string: occurrences that do not overlap, counted from
  the left.  The first argument bounds the recursion; it is the length of the string.
\<close>

fun count_sub_n :: "nat \<Rightarrow> pystr \<Rightarrow> pystr \<Rightarrow> nat" where
  "count_sub_n 0 s p = 0"
| "count_sub_n (Suc n) s p =
     (if s = [] then 0
      else if startswith s p then Suc (count_sub_n n (drop (length p) s) p)
      else count_sub_n n (tl s) p)"

definition count_sub :: "pystr \<Rightarrow> pystr \<Rightarrow> nat" where
  "count_sub s p = count_sub_n (length s) s p"

text \<open>\<^verbatim>\<open>s.isupper()\<close>: no lowercase or titlecase character, and an uppercase one.\<close>

definition isupper :: "ucd \<Rightarrow> pystr \<Rightarrow> bool" where
  "isupper rt s = (list_all (\<lambda>c. \<not> u_lower rt c \<and> \<not> u_title rt c) s \<and> list_ex (u_upper rt) s)"

text \<open>
  \<^verbatim>\<open>s.istitle()\<close>, as the interpreter computes it: uppercase and titlecase characters
  follow uncased ones only, lowercase characters follow cased ones only, and there is a
  cased character.  The flags are "the previous character is cased" and "a cased
  character was seen".
\<close>

fun istitle_from :: "ucd \<Rightarrow> bool \<Rightarrow> bool \<Rightarrow> pystr \<Rightarrow> bool" where
  "istitle_from rt prev cased [] = cased"
| "istitle_from rt prev cased (c # cs) =
     (if u_upper rt c \<or> u_title rt c then (\<not> prev \<and> istitle_from rt True True cs)
      else if u_lower rt c then (prev \<and> istitle_from rt True True cs)
      else istitle_from rt False cased cs)"

definition istitle :: "ucd \<Rightarrow> pystr \<Rightarrow> bool" where
  "istitle rt s = istitle_from rt False False s"

section \<open>Regular expressions of the \<^verbatim>\<open>re\<close> module\<close>

text \<open>
  A pattern string of the source is written as its syntax tree.  Only
  \<^verbatim>\<open>re.match\<close> and \<^verbatim>\<open>re.search\<close> used as truth values occur in the source, so the
  meaning of a pattern is the set of positions at which a match starting at a given
  position can end.
\<close>

datatype cc =
    Lit nat           \<comment> \<open>one character\<close>
  | Range nat nat     \<comment> \<open>\<^verbatim>\<open>a-z\<close>\<close>
  | Digit             \<comment> \<open>\<^verbatim>\<open>\d\<close>\<close>
  | Space             \<comment> \<open>\<^verbatim>\<open>\s\<close>\<close>
  | Word              \<comment> \<open>\<^verbatim>\<open>\w\<close>\<close>

datatype rx =
    Chr nat           \<comment> \<open>a literal character\<close>
  | Set "cc list"     \<comment> \<open>\<^verbatim>\<open>[...]\<close>, also a lone \<^verbatim>\<open>\d\<close>, \<^verbatim>\<open>\s\<close>\<close>
  | NSet "cc list"    \<comment> \<open>\<^verbatim>\<open>[^...]\<close>\<close>
  | Seq rx rx
  | Alt rx rx
  | Star rx
  | Bol               \<comment> \<open>\<^verbatim>\<open>^\<close>\<close>
  | Eol               \<comment> \<open>\<^verbatim>\<open>$\<close>\<close>
  | Wordb             \<comment> \<open>\<^verbatim>\<open>\b\<close>\<close>
  | Eps

definition is_word :: "ucd \<Rightarrow> nat \<Rightarrow> bool" where
  "is_word rt c = (u_alnum rt c \<or> c = 95)"

fun cc_match :: "ucd \<Rightarrow> cc \<Rightarrow> nat \<Rightarrow> bool" where
  "cc_match rt (Lit a) c = (c = a)"
| "cc_match rt (Range a b) c = (a \<le> c \<and> c \<le> b)"
| "cc_match rt Digit c = u_digit rt c"
| "cc_match rt Space c = u_space rt c"
| "cc_match rt Word c = is_word rt c"

definition in_set :: "ucd \<Rightarrow> cc list \<Rightarrow> nat \<Rightarrow> bool" where
  "in_set rt cs c = list_ex (\<lambda>k. cc_match rt k c) cs"

definition word_at :: "ucd \<Rightarrow> pystr \<Rightarrow> nat \<Rightarrow> bool" where
  "word_at rt s i = (i < length s \<and> is_word rt (s ! i))"

text \<open>\<open>star_iter step n ps\<close>: the positions reachable from \<open>ps\<close> in at most \<open>n\<close> steps.\<close>

fun star_iter :: "(nat \<Rightarrow> nat list) \<Rightarrow> nat \<Rightarrow> nat list \<Rightarrow> nat list" where
  "star_iter step 0 ps = ps"
| "star_iter step (Suc n) ps = star_iter step n (remdups (ps @ concat (map step ps)))"

text \<open>
  \<open>ends rt r s i\<close>: the end positions of the matches of \<open>r\<close> in \<open>s\<close> that start at
  position \<open>i\<close>.  No flag is set: \<^verbatim>\<open>^\<close> matches at position 0 only, \<^verbatim>\<open>$\<close> at the end
  and before a final newline.
\<close>

primrec ends :: "rx \<Rightarrow> ucd \<Rightarrow> pystr \<Rightarrow> nat \<Rightarrow> nat list" where
  "ends (Chr a) rt s i = (if i < length s \<and> s ! i = a then [Suc i] else [])"
| "ends (Set cs) rt s i = (if i < length s \<and> in_set rt cs (s ! i) then [Suc i] else [])"
| "ends (NSet cs) rt s i = (if i < length s \<and> \<not> in_set rt cs (s ! i) then [Suc i] else [])"
| "ends (Seq p q) rt s i = remdups (concat (map (ends q rt s) (ends p rt s i)))"
| "ends (Alt p q) rt s i = remdups (ends p rt s i @ ends q rt s i)"
| "ends (Star p) rt s i = star_iter (ends p rt s) (Suc (length s)) [i]"
| "ends Bol rt s i = (if i = 0 then [i] else [])"
| "ends Eol rt s i =
     (if i = length s \<or> (Suc i = length s \<and> s ! i = 10) then [i] else [])"
| "ends Wordb rt s i =
     (if (0 < i \<and> word_at rt s (i - 1)) \<noteq> word_at rt s i then [i] else [])"
| "ends Eps rt s i = [i]"

definition re_match :: "ucd \<Rightarrow> rx \<Rightarrow> pystr \<Rightarrow> bool" where
  "re_match rt r s = (ends r rt s 0 \<noteq> [])"

definition re_search :: "ucd \<Rightarrow> rx \<Rightarrow> pystr \<Rightarrow> bool" where
  "re_search rt r s = list_ex (\<lambda>i. ends r rt s i \<noteq> []) [0 ..< Suc (length s)]"

text \<open>Derived pattern forms.\<close>

definition Plus :: "rx \<Rightarrow> rx" where
  "Plus p = Seq p (Star p)"

definition Opt :: "rx \<Rightarrow> rx" where
  "Opt p = Alt p Eps"

fun Str :: "pystr \<Rightarrow> rx" where
  "Str [] = Eps"
| "Str [a] = Chr a"
| "Str (a # as) = Seq (Chr a) (Str as)"

definition Lits :: "pystr \<Rightarrow> cc list" where
  "Lits s = map Lit s"

text \<open>A sequence of patterns.\<close>

fun Cat :: "rx list \<Rightarrow> rx" where
  "Cat [] = Eps"
| "Cat [p] = p"
| "Cat (p # ps) = Seq p (Cat ps)"

text \<open>Alternatives of a list of patterns.\<close>

fun Alts :: "rx list \<Rightarrow> rx" where
  "Alts [] = Set []"
| "Alts [p] = p"
| "Alts (p # ps) = Alt p (Alts ps)"

text \<open>
  The flag \<^verbatim>\<open>re.IGNORECASE\<close> is a rewriting of the pattern: a letter of the ASCII
  alphabet stands for both of its cases, and for the non-ASCII letters that lowercase or
  uppercase to it (U+0130 and U+0131 for i, U+017F for s, U+212A for k).
\<close>

definition case_variants :: "nat \<Rightarrow> nat list" where
  "case_variants a =
     (let lo = (if 65 \<le> a \<and> a \<le> 90 then a + 32 else a) in
      if 97 \<le> lo \<and> lo \<le> 122 then
        [lo, lo - 32] @ (if lo = 105 then [0x130, 0x131] else if lo = 115 then [0x17F]
                         else if lo = 107 then [0x212A] else [])
      else [a])"

fun icase_cc :: "cc \<Rightarrow> cc list" where
  "icase_cc (Lit a) = map Lit (case_variants a)"
| "icase_cc (Range a b) =
     Range a b
     # (if max a 97 \<le> min b 122 then [Range (max a 97 - 32) (min b 122 - 32)] else [])
     @ (if max a 65 \<le> min b 90 then [Range (max a 65 + 32) (min b 90 + 32)] else [])
     @ (if (a \<le> 105 \<and> 105 \<le> b) \<or> (a \<le> 73 \<and> 73 \<le> b) then [Lit 0x130, Lit 0x131] else [])
     @ (if (a \<le> 115 \<and> 115 \<le> b) \<or> (a \<le> 83 \<and> 83 \<le> b) then [Lit 0x17F] else [])
     @ (if (a \<le> 107 \<and> 107 \<le> b) \<or> (a \<le> 75 \<and> 75 \<le> b) then [Lit 0x212A] else [])"
| "icase_cc k = [k]"

primrec icase :: "rx \<Rightarrow> rx" where
  "icase (Chr a) = (if case_variants a = [a] then Chr a else Set (map Lit (case_variants a)))"
| "icase (Set cs) = Set (concat (map icase_cc cs))"
| "icase (NSet cs) = NSet (concat (map icase_cc cs))"
| "icase (Seq p q) = Seq (icase p) (icase q)"
| "icase (Alt p q) = Alt (icase p) (icase q)"
| "icase (Star p) = Star (icase p)"
| "icase Bol = Bol"
| "icase Eol = Eol"
| "icase Wordb = Wordb"
| "icase Eps = Eps"

abbreviation "rx_d \<equiv> Set [Digit]"
abbreviation "rx_s \<equiv> Set [Space]"
abbreviation "rx_AZ \<equiv> Set [Range 65 90]"
abbreviation "rx_dot \<equiv> Chr 46"

section \<open>Language detection (accuracy enhancer)\<close>

definition japanese_class :: "cc list" where
  "japanese_class = [Range 0x3040 0x309F, Range 0x30A0 0x30FF, Range 0x4E00 0x9FAF]"

definition chinese_class :: "cc list" where
  "chinese_class = [Range 0x4E00 0x9FFF]"

definition korean_class :: "cc list" where
  "korean_class = [Range 0xAC00 0xD7AF]"

definition arabic_class :: "cc list" where
  "arabic_class = [Range 0x0600 0x06FF]"

definition european_class :: "cc list" where
  "european_class = Lits [0xE0, 0xE1, 0xE2, 0xE3, 0xE4, 0xE5, 0xE6, 0xE7, 0xE8, 0xE9, 0xEA,
     0xEB, 0xEC, 0xED, 0xEE, 0xEF, 0xF1, 0xF2, 0xF3, 0xF4, 0xF5, 0xF6, 0xF8, 0xF9, 0xFA,
     0xFB, 0xFC, 0xFD, 0xFF]"

definition detect_text_language :: "ucd \<Rightarrow> pystr \<Rightarrow> string" where
  "detect_text_language rt text =
     (if re_search rt (Set japanese_class) text then ''japanese''
      else if re_search rt (Set chinese_class) text then ''chinese''
      else if re_search rt (Set korean_class) text then ''korean''
      else if re_search rt (Set arabic_class) text then ''arabic''
      else if re_search rt (Set european_class) (u_tolower rt text) then ''european''
      else ''english'')"

section \<open>Errors and configuration\<close>

text \<open>The exceptions the modelled code can raise.\<close>

datatype py_error = IndexError | KeyError string | ZeroDivisionError

text \<open>
  The options of the configuration dictionary that the modelled code reads.  The default
  configuration has no key \<^verbatim>\<open>max_technical_heading\<close>; a custom configuration may add it.
  A noise pattern is the syntax tree of its pattern string.
\<close>

record config =
  min_clusters :: int
  max_clusters :: int
  cluster_ratio :: int
  min_heading_size :: real
  large_font_threshold :: real
  title_font_threshold :: real
  max_caps_length :: nat
  font_size_tolerance :: real
  grouping_distance :: real
  large_font_tolerance :: real
  large_font_distance :: real
  min_text_length :: nat
  min_word_avg_length :: real
  max_form_heading :: nat
  max_academic_heading :: nat
  max_simple_heading :: nat
  max_technical_heading :: "nat option"
  form_avoid_fields :: "pystr list"
  academic_max_dots :: nat
  technical_max_parentheses :: nat
  simple_max_underscores :: nat
  simple_avoid_patterns :: "pystr list"
  noise_patterns :: "rx list"
  min_unique_chars :: nat
  max_space_ratio :: real

definition default_noise_patterns :: "rx list" where
  "default_noise_patterns =
     [Cat [Bol, Plus (Set [Space, Lit 45, Lit 95, Lit 46]), Eol],
      Cat [Bol, Plus rx_d, Eol],
      Cat [Bol, Star (NSet [Word, Space]), Eol],
      Cat [Bol, Alt (Str (asc ''page'')) (Str (asc ''p.'')), Star rx_s, Plus rx_d],
      Cat [Bol, Star rx_s, Plus rx_d, Star rx_s, Chr 47, Star rx_s, Plus rx_d, Star rx_s, Eol]]"

definition get_default_config :: config where
  "get_default_config = \<lparr>
     min_clusters = 2, max_clusters = 5, cluster_ratio = 3,
     min_heading_size = 11.0, large_font_threshold = 14.0, title_font_threshold = 20,
     max_caps_length = 30,
     font_size_tolerance = 2.0, grouping_distance = 30, large_font_tolerance = 3.0,
     large_font_distance = 40,
     min_text_length = 3, min_word_avg_length = 2, max_form_heading = 50,
     max_academic_heading = 150, max_simple_heading = 100, max_technical_heading = None,
     form_avoid_fields = map asc [''name:'', ''date:'', ''signature:'', ''employee''],
     academic_max_dots = 3, technical_max_parentheses = 3, simple_max_underscores = 2,
     simple_avoid_patterns = [asc ''copyright'', [0xA9], asc ''all rights reserved''],
     noise_patterns = default_noise_patterns,
     min_unique_chars = 3, max_space_ratio = 0.7 \<rparr>"


section \<open>Fragments\<close>

text \<open>
  A reconstructed fragment, the dictionary with the keys \<^verbatim>\<open>text\<close>, \<^verbatim>\<open>size\<close>,
  \<^verbatim>\<open>bold\<close>, \<^verbatim>\<open>page\<close>, \<^verbatim>\<open>length\<close> and \<^verbatim>\<open>bbox\<close> (fields \<open>ftext\<close>, \<open>fsize\<close>,
  \<open>fbold\<close>, \<open>fpage\<close>, \<open>flength\<close>, \<open>bbox\<close>).  A bounding box is \<open>(x0, y0, x1, y1)\<close>;
  \<open>None\<close> is Python's \<^verbatim>\<open>None\<close>.
\<close>

type_synonym box = "real \<times> real \<times> real \<times> real"

record fragment =
  ftext :: pystr
  fsize :: real
  fbold :: bool
  fpage :: int
  flength :: nat
  bbox :: "box option"

definition box_y0 :: "box \<Rightarrow> real" where   \<comment> \<open>\<^verbatim>\<open>bbox[1]\<close>\<close>
  "box_y0 b = fst (snd b)"

text \<open>A fragment as the reconstruction builds it, for examples: bold, 14 points.\<close>

definition example_fragment :: "string \<Rightarrow> int \<Rightarrow> real \<Rightarrow> fragment" where
  "example_fragment t p y =
     \<lparr> ftext = asc t, fsize = 14, fbold = True, fpage = p, flength = length t,
       bbox = Some (72, y, 300, y + 14) \<rparr>"

text \<open>A fragment of body text, for examples: regular, 10 points.\<close>

definition example_body :: "string \<Rightarrow> int \<Rightarrow> real \<Rightarrow> fragment" where
  "example_body t p y =
     \<lparr> ftext = asc t, fsize = 10, fbold = False, fpage = p, flength = length t,
       bbox = Some (72, y, 500, y + 10) \<rparr>"

section \<open>Fragment reconstruction (heading extractor)\<close>

text \<open>
  A line of a page as the first pass collects it: the keys \<^verbatim>\<open>text\<close>, \<^verbatim>\<open>size\<close>,
  \<^verbatim>\<open>bold\<close>, \<^verbatim>\<open>bbox\<close> and \<^verbatim>\<open>y_pos\<close>.
\<close>

record line_info =
  ltext :: pystr
  lsize :: real
  lbold :: bool
  lbbox :: "box option"
  y_pos :: real

definition reconstruct_fragmented_text :: "ucd \<Rightarrow> line_info list \<Rightarrow> pystr" where
  "reconstruct_fragmented_text rt text_group =
     (if text_group = [] then []
      else
        let texts = map ltext text_group;
            combined = strip rt (join texts)
        in join (split rt combined))"

text \<open>The test that decides whether the current line joins the group of the previous one.\<close>

definition mergeable :: "config \<Rightarrow> line_info \<Rightarrow> line_info \<Rightarrow> bool" where
  "mergeable cfg prev_line current_line =
     (let size_similar = \<bar>lsize current_line - lsize prev_line\<bar> < font_size_tolerance cfg;
          y_distance = \<bar>y_pos current_line - y_pos prev_line\<bar>;
          close_vertically = y_distance < grouping_distance cfg;
          same_style = (lbold current_line = lbold prev_line);
          large_font_threshold = title_font_threshold cfg;
          both_large = (lsize current_line > large_font_threshold
                        \<and> lsize prev_line > large_font_threshold);
          size_similar = (if both_large
                          then \<bar>lsize current_line - lsize prev_line\<bar> < large_font_tolerance cfg
                          else size_similar);
          close_vertically = (if both_large then y_distance < large_font_distance cfg
                              else close_vertically)
      in size_similar \<and> close_vertically \<and> same_style)"

text \<open>What a finished group contributes: its fragment, unless the text is too short.\<close>

definition process_group :: "ucd \<Rightarrow> int \<Rightarrow> line_info list \<Rightarrow> fragment list" where
  "process_group rt page_num current_group =
     (if current_group \<noteq> [] then
        let combined_text = reconstruct_fragmented_text rt current_group;
            avg_size = sum_list (map lsize current_group) / real (length current_group);
            is_bold = lbold (hd current_group)
        in if length combined_text > 5
           then [\<lparr> ftext = combined_text, fsize = avg_size, fbold = is_bold,
                   fpage = page_num + 1, flength = length combined_text,
                   bbox = lbbox (hd current_group) \<rparr>]
           else []
      else [])"

text \<open>The loop over the lines after the first; the state is the list of fragments and the
  current group.\<close>

fun reconstruct_loop ::
  "config \<Rightarrow> ucd \<Rightarrow> int \<Rightarrow> fragment list \<Rightarrow> line_info list \<Rightarrow> line_info list \<Rightarrow> fragment list"
where
  "reconstruct_loop cfg rt page_num reconstructed_texts current_group [] =
     reconstructed_texts @ process_group rt page_num current_group"
| "reconstruct_loop cfg rt page_num reconstructed_texts current_group (current_line # rest) =
     (let prev_line = last current_group in
      if mergeable cfg prev_line current_line
      then reconstruct_loop cfg rt page_num reconstructed_texts
             (current_group @ [current_line]) rest
      else reconstruct_loop cfg rt page_num
             (reconstructed_texts @ process_group rt page_num current_group)
             [current_line] rest)"

definition reconstruct_text_blocks ::
  "config \<Rightarrow> ucd \<Rightarrow> line_info list \<Rightarrow> int \<Rightarrow> py_error + fragment list" where
  "reconstruct_text_blocks cfg rt lines_info page_num =
     (case lines_info of
        [] \<Rightarrow> Inl IndexError
      | first # rest \<Rightarrow> Inr (reconstruct_loop cfg rt page_num [] [first] rest))"

text \<open>
  For the statement of the grouping: the maximal runs of a list in which each element is
  related to the next, and the merge condition in the words of the specification, with
  the tolerance and the distance that apply to a pair of lines.
\<close>

fun runs :: "('a \<Rightarrow> 'a \<Rightarrow> bool) \<Rightarrow> 'a list \<Rightarrow> 'a list list" where
  "runs R [] = []"
| "runs R [x] = [[x]]"
| "runs R (x # y # ys) =
     (if R x y then (case runs R (y # ys) of [] \<Rightarrow> [[x]] | g # gs \<Rightarrow> (x # g) # gs)
      else [x] # runs R (y # ys))"

definition both_title_sized :: "config \<Rightarrow> line_info \<Rightarrow> line_info \<Rightarrow> bool" where
  "both_title_sized cfg a b = (lsize a > title_font_threshold cfg \<and> lsize b > title_font_threshold cfg)"

definition size_tolerance :: "config \<Rightarrow> line_info \<Rightarrow> line_info \<Rightarrow> real" where
  "size_tolerance cfg a b =
     (if both_title_sized cfg a b then large_font_tolerance cfg else font_size_tolerance cfg)"

definition distance_limit :: "config \<Rightarrow> line_info \<Rightarrow> line_info \<Rightarrow> real" where
  "distance_limit cfg a b =
     (if both_title_sized cfg a b then large_font_distance cfg else grouping_distance cfg)"

text \<open>A line for examples.\<close>

definition example_line :: "string \<Rightarrow> real \<Rightarrow> bool \<Rightarrow> real \<Rightarrow> line_info" where
  "example_line t sz b y =
     \<lparr> ltext = asc t, lsize = sz, lbold = b, lbbox = Some (72, y, 300, y + sz), y_pos = y \<rparr>"

section \<open>Candidate clustering (heading extractor)\<close>

text \<open>
  What the page source yields: a span with its text, size, flags and bounding box; a line
  is its list of spans; a block has lines or (an image block) none; a page is its list of
  blocks and a document its list of pages.
\<close>

record span =
  stext :: pystr
  ssize :: real
  sflags :: nat
  sbbox :: box

type_synonym block = "span list list option"

text \<open>The state of the loop over the spans of a line: text, largest size, bold, first box.\<close>

definition add_span ::
  "ucd \<Rightarrow> span \<Rightarrow> pystr \<times> real \<times> bool \<times> box option \<Rightarrow> pystr \<times> real \<times> bool \<times> box option" where
  "add_span rt sp st =
     (case st of (line_text, max_size, is_bold, bb) \<Rightarrow>
        let text = strip rt (stext sp) in
        if text \<noteq> [] then
          (line_text @ text @ [32], max max_size (ssize sp),
           (if odd (sflags sp div 2 ^ 4) then True else is_bold),
           (if bb = None then Some (sbbox sp) else bb))
        else st)"

definition collect_line :: "ucd \<Rightarrow> span list \<Rightarrow> line_info option" where
  "collect_line rt spans =
     (case fold (add_span rt) spans ([], 0, False, None) of
        (line_text, max_size, is_bold, bb) \<Rightarrow>
          let line_text = strip rt line_text in
          if line_text \<noteq> [] \<and> length line_text > 3
          then Some \<lparr> ltext = line_text, lsize = max_size, lbold = is_bold, lbbox = bb,
                      y_pos = (case bb of None \<Rightarrow> 0 | Some b \<Rightarrow> box_y0 b) \<rparr>
          else None)"

definition lines_of_page :: "ucd \<Rightarrow> block list \<Rightarrow> line_info list" where
  "lines_of_page rt blocks =
     concat (map (\<lambda>blk. case blk of None \<Rightarrow> [] | Some lns \<Rightarrow> List.map_filter (collect_line rt) lns)
                 blocks)"

text \<open>The loop over the pages, from page number \<open>page_num\<close> on.\<close>

fun pages_texts ::
  "config \<Rightarrow> ucd \<Rightarrow> int \<Rightarrow> block list list \<Rightarrow> py_error + fragment list" where
  "pages_texts cfg rt page_num [] = Inr []"
| "pages_texts cfg rt page_num (blocks # pages) =
     (let lines_info = lines_of_page rt blocks in
      if lines_info = [] then pages_texts cfg rt (page_num + 1) pages
      else
        case reconstruct_text_blocks cfg rt (sort_key y_pos lines_info) page_num of
          Inl e \<Rightarrow> Inl e
        | Inr reconstructed_texts \<Rightarrow>
            (case pages_texts cfg rt (page_num + 1) pages of
               Inl e \<Rightarrow> Inl e
             | Inr later_texts \<Rightarrow> Inr (reconstructed_texts @ later_texts)))"

text \<open>The features of a fragment, in the order of the source.\<close>

definition of_bool_real :: "bool \<Rightarrow> real" where
  "of_bool_real b = (if b then 1 else 0)"

definition feature_vector :: "ucd \<Rightarrow> fragment \<Rightarrow> real list" where
  "feature_vector rt text_info =
     (let text = ftext text_info;
          length_feature = flength text_info
      in [fsize text_info,
          of_bool_real (fbold text_info),
          real length_feature,
          (case bbox text_info of None \<Rightarrow> 0 | Some b \<Rightarrow> box_y0 b),
          of_bool_real (re_search rt rx_d text),
          of_bool_real (re_match rt (Cat [Bol, Plus rx_d]) text),
          of_bool_real (length_feature < 30),
          of_bool_real (istitle rt text),
          of_bool_real (58 \<in> set text),
          real (length (split rt text)),
          of_int (fpage text_info),
          of_bool_real (fpage text_info \<le> 3),
          of_bool_real (re_search rt (Cat [Bol, Plus rx_d, rx_dot]) text),
          of_bool_real (re_search rt (Cat [Bol, Plus rx_d, rx_dot, Plus rx_d]) text)])"

definition cluster_keywords :: "pystr list" where
  "cluster_keywords =
     map asc [''introduction'', ''overview'', ''conclusion'', ''summary'', ''background'',
              ''methodology'', ''results'', ''discussion'', ''references'']"

definition mean :: "real list \<Rightarrow> real" where   \<comment> \<open>\<^verbatim>\<open>np.mean\<close> of a non-empty list\<close>
  "mean xs = sum_list xs / real (length xs)"

definition calculate_cluster_score ::
  "config \<Rightarrow> ucd \<Rightarrow> fragment list \<Rightarrow> real \<Rightarrow> real \<Rightarrow> real \<Rightarrow> int" where
  "calculate_cluster_score cfg rt texts avg_size avg_length bold_ratio =
     (let font_threshold = min_heading_size cfg;
          large_font_threshold = large_font_threshold cfg;
          max_length = max_simple_heading cfg;
          cluster_score = (0::int);
          cluster_score = (if avg_size > large_font_threshold then cluster_score + 3
                           else if avg_size > font_threshold then cluster_score + 2
                           else cluster_score);
          cluster_score = (if avg_length < 30 then cluster_score + 3
                           else if avg_length < real max_length then cluster_score + 2
                           else cluster_score);
          cluster_score = (if bold_ratio > 0.7 then cluster_score + 3
                           else if bold_ratio > 0.3 then cluster_score + 2
                           else cluster_score);
          has_numbered_sections =
            list_ex (\<lambda>t. re_search rt (Cat [Bol, Plus rx_d, rx_dot]) (ftext t)) texts;
          has_section_keywords =
            list_ex (\<lambda>t. list_ex (\<lambda>keyword. contains (u_tolower rt (ftext t)) keyword)
                                  cluster_keywords) texts;
          cluster_score = (if has_numbered_sections then cluster_score + 4 else cluster_score);
          cluster_score = (if has_section_keywords then cluster_score + 3 else cluster_score);
          early_page_ratio = mean (map (\<lambda>t. if fpage t \<le> 3 then 1 else 0) texts);
          cluster_score = (if early_page_ratio > 0.5 then cluster_score + 2 else cluster_score);
          title_case_ratio = mean (map (\<lambda>t. if istitle rt (ftext t) then 1 else 0) texts);
          cluster_score = (if title_case_ratio > 0.5 then cluster_score + 2 else cluster_score)
      in cluster_score)"

text \<open>The score of a cluster from its members, as the selection computes it.\<close>

definition cluster_score_of :: "config \<Rightarrow> ucd \<Rightarrow> fragment list \<Rightarrow> int" where
  "cluster_score_of cfg rt texts =
     (let avg_size = mean (map fsize texts);
          avg_length = mean (map (\<lambda>t. real (flength t)) texts);
          bold_ratio = mean (map (\<lambda>t. of_bool_real (fbold t)) texts)
      in calculate_cluster_score cfg rt texts avg_size avg_length bold_ratio)"

text \<open>
  The clusters are visited in the order in which their labels first occur; the members
  of a cluster are the fragments with its label, in document order.  A label list longer
  than the fragment list makes the indexing of the source fail.
\<close>

definition first_seen :: "'a list \<Rightarrow> 'a list" where
  "first_seen ls = rev (remdups (rev ls))"

definition cluster_members :: "fragment list \<Rightarrow> nat list \<Rightarrow> nat \<Rightarrow> fragment list" where
  "cluster_members all_texts clusters k =
     map fst (filter (\<lambda>p. snd p = k) (zip all_texts clusters))"

definition select_heading_candidates ::
  "config \<Rightarrow> ucd \<Rightarrow> fragment list \<Rightarrow> nat list \<Rightarrow> py_error + fragment list" where
  "select_heading_candidates cfg rt all_texts clusters =
     (if length clusters > length all_texts then Inl IndexError
      else Inr (concat (map (\<lambda>cluster_id.
                   let texts = cluster_members all_texts clusters cluster_id in
                   if cluster_score_of cfg rt texts \<ge> 5 then texts else [])
                 (first_seen clusters))))"

text \<open>
  The clustering itself is the library's: \<open>kmeans k features\<close> stands for the labels
  that k-means with \<open>k\<close> clusters (and the configured seed and number of initialisations)
  assigns to the standardised feature vectors.
\<close>

definition cluster_headings ::
  "config \<Rightarrow> ucd \<Rightarrow> (int \<Rightarrow> real list list \<Rightarrow> nat list) \<Rightarrow> fragment list
     \<Rightarrow> py_error + fragment list" where
  "cluster_headings cfg rt kmeans all_texts =
     (let features = map (feature_vector rt) all_texts in
      if cluster_ratio cfg = 0 then Inl ZeroDivisionError
      else
        let n_clusters = min (max_clusters cfg) (int (length all_texts) div cluster_ratio cfg) in
        if n_clusters < min_clusters cfg then Inr all_texts
        else select_heading_candidates cfg rt all_texts (kmeans n_clusters features))"

definition candidates_of_texts ::
  "config \<Rightarrow> ucd \<Rightarrow> (int \<Rightarrow> real list list \<Rightarrow> nat list) \<Rightarrow> fragment list
     \<Rightarrow> py_error + fragment list" where
  "candidates_of_texts cfg rt kmeans all_texts =
     (if length all_texts < 5 then Inr all_texts
      else cluster_headings cfg rt kmeans all_texts)"

definition get_ml_heading_candidates ::
  "config \<Rightarrow> ucd \<Rightarrow> (int \<Rightarrow> real list list \<Rightarrow> nat list) \<Rightarrow> block list list
     \<Rightarrow> py_error + fragment list" where
  "get_ml_heading_candidates cfg rt kmeans doc =
     (case pages_texts cfg rt 0 doc of
        Inl e \<Rightarrow> Inl e
      | Inr all_texts \<Rightarrow> candidates_of_texts cfg rt kmeans all_texts)"

section \<open>Candidate filter\<close>

text \<open>The flags of \<^verbatim>\<open>doc_profile['structure']\<close> that the filter reads.\<close>

record doc_profile =
  is_form :: bool
  is_academic :: bool
  is_technical :: bool

definition passes_document_filters ::
  "config \<Rightarrow> doc_profile \<Rightarrow> pystr \<Rightarrow> pystr \<Rightarrow> py_error + bool" where
  "passes_document_filters cfg profile text text_lower =
     (if is_form profile then
        (if length text < min_text_length cfg \<or> length text > max_form_heading cfg
            \<or> 58 \<in> set text
            \<or> list_ex (\<lambda>field. contains text_lower field) (form_avoid_fields cfg)
         then Inr False else Inr True)
      else if is_academic profile then
        (if length text < min_text_length cfg \<or> length text > max_academic_heading cfg
            \<or> count_chr text 46 > academic_max_dots cfg
         then Inr False else Inr True)
      else if is_technical profile then
        (if length text < min_text_length cfg then Inr False
         else case max_technical_heading cfg of
                None \<Rightarrow> Inl (KeyError ''max_technical_heading'')
              | Some limit \<Rightarrow>
                  if length text > limit \<or> count_chr text 40 > technical_max_parentheses cfg
                  then Inr False else Inr True)
      else
        (if length text < min_text_length cfg \<or> length text > max_simple_heading cfg
            \<or> count_chr text 40 > 2
            \<or> count_chr text 95 > simple_max_underscores cfg
            \<or> list_ex (\<lambda>pattern. contains text_lower pattern) (simple_avoid_patterns cfg)
         then Inr False else Inr True))"

definition is_noise_text :: "config \<Rightarrow> ucd \<Rightarrow> pystr \<Rightarrow> bool" where
  "is_noise_text cfg rt text =
     (let text_clean = strip rt text in
      if list_ex (\<lambda>pattern. re_match rt (icase pattern) text_clean) (noise_patterns cfg)
      then True
      else if length text_clean < min_unique_chars cfg
              \<or> real (count_chr text_clean 32) / real (max 1 (length text_clean))
                   > max_space_ratio cfg
              \<or> length (remdups text_clean) < min_unique_chars cfg
      then True
      else False)"

definition sentence_starters :: "pystr list" where
  "sentence_starters =
     map asc [''those'', ''these'', ''this'', ''that'', ''when'', ''where'', ''while'',
              ''during'', ''after'', ''before'', ''since'', ''until'', ''although'',
              ''however'', ''therefore'', ''moreover'', ''furthermore'', ''in addition'',
              ''for example'', ''such as'']"

definition pat_version_date :: rx where
  \<comment> \<open>\<^verbatim>\<open>\b(version|v\d+|\d{4}|\d+/\d+|\d+-\d+)\b\<close>\<close>
  "pat_version_date =
     Cat [Wordb,
          Alts [Str (asc ''version''), Cat [Chr 118, Plus rx_d], Cat [rx_d, rx_d, rx_d, rx_d],
                Cat [Plus rx_d, Chr 47, Plus rx_d], Cat [Plus rx_d, Chr 45, Plus rx_d]],
          Wordb]"

definition pat_page_reference :: rx where
  \<comment> \<open>\<^verbatim>\<open>\bpage\s+\d+|\bp\.\s*\d+|\bpp\.\s*\d+\<close>\<close>
  "pat_page_reference =
     Alts [Cat [Wordb, Str (asc ''page''), Plus rx_s, Plus rx_d],
           Cat [Wordb, Str (asc ''p.''), Star rx_s, Plus rx_d],
           Cat [Wordb, Str (asc ''pp.''), Star rx_s, Plus rx_d]]"

definition is_unlikely_heading :: "ucd \<Rightarrow> pystr \<Rightarrow> bool" where
  "is_unlikely_heading rt text =
     (let text_clean = strip rt text;
          text_lower = u_tolower rt text_clean in
      if list_ex (\<lambda>starter. startswith text_lower starter) sentence_starters then True
      else if length text_clean > 120 \<and> 46 \<in> set text_clean then True
      else if re_search rt pat_version_date text_lower then True
      else if re_search rt pat_page_reference text_lower then True
      else if count_sub text_lower (asc '' be '') > 1
              \<or> count_sub text_lower (asc '' shall '') > 0
              \<or> count_sub text_lower (asc '' must '') > 0
              \<or> count_sub text_lower (asc '' will '') > 1 then True
      else if count_chr text_clean 46 > 1 \<and> length text_clean > 50 then True
      else False)"

text \<open>\<^verbatim>\<open>text[0]\<close> raises on the empty string.\<close>

definition has_good_heading_structure :: "config \<Rightarrow> ucd \<Rightarrow> pystr \<Rightarrow> py_error + bool" where
  "has_good_heading_structure cfg rt text =
     (case text of
        [] \<Rightarrow> Inl IndexError
      | first # _ \<Rightarrow>
          if \<not> u_alnum rt first then Inr False
          else if isupper rt text \<and> length text > max_caps_length cfg then Inr False
          else if endswith text [46] \<or> endswith text [33] \<or> endswith text [63] then Inr False
          else Inr True)"

text \<open>The word sets are compared as sets; \<open>seen_texts\<close> is the set of the texts kept.\<close>

definition word_overlap :: "ucd \<Rightarrow> pystr \<Rightarrow> pystr \<Rightarrow> real" where
  "word_overlap rt text_lower seen_lower =
     (let a = remdups (split rt text_lower); b = remdups (split rt seen_lower) in
      real (length (filter (\<lambda>w. w \<in> set b) a))
        / real (max 1 (length (remdups (a @ b)))))"

definition is_repetitive_content :: "ucd \<Rightarrow> pystr \<Rightarrow> pystr list \<Rightarrow> bool" where
  "is_repetitive_content rt text seen_texts =
     (let text_lower = u_tolower rt text in
      list_ex (\<lambda>seen. word_overlap rt text_lower (u_tolower rt seen) > 0.8) seen_texts)"

definition rx_az :: rx where
  "rx_az = Set [Range 97 122]"

definition heading_patterns :: "rx list" where
  "heading_patterns =
     [Cat [Bol, Plus rx_d, Opt rx_dot, Plus rx_s, rx_az],
      Cat [Bol, Plus rx_az, Plus rx_s,
           Alts [Str (asc ''overview''), Str (asc ''introduction''), Str (asc ''summary''),
                 Str (asc ''conclusion'')]],
      Cat [Bol, Alts [Str (asc ''overview''), Str (asc ''introduction''),
                      Str (asc ''background''), Str (asc ''summary''),
                      Str (asc ''conclusion''), Str (asc ''references'')]],
      Cat [Bol, Str (asc ''chapter''), Plus rx_s, Plus rx_d],
      Cat [Bol, Str (asc ''section''), Plus rx_s, Plus rx_d],
      Cat [Bol, Str (asc ''appendix''), Plus rx_s, rx_az]]"

definition instruction_words :: "pystr list" where
  "instruction_words = map asc [''will'', ''shall'', ''must'', ''should'', ''can'', ''may'']"

definition is_likely_heading_content :: "ucd \<Rightarrow> pystr \<Rightarrow> bool" where
  "is_likely_heading_content rt text =
     (let text_lower = u_tolower rt text in
      if list_ex (\<lambda>pattern. re_search rt pattern text_lower) heading_patterns then True
      else
        let words = split rt text in
        if length words \<le> 6 \<and> length text \<le> 80
           \<and> \<not> list_ex (\<lambda>word. contains text_lower word) instruction_words
        then True
        else False)"

text \<open>
  One round of the loop of \<^verbatim>\<open>filter_candidates\<close>: whether the candidate is appended
  (and its stripped text added to the texts seen), or the exception raised.
\<close>

definition keep_candidate ::
  "config \<Rightarrow> ucd \<Rightarrow> doc_profile \<Rightarrow> pystr list \<Rightarrow> fragment \<Rightarrow> py_error + bool" where
  "keep_candidate cfg rt profile seen_texts candidate =
     (let text = strip rt (ftext candidate);
          text_lower = u_tolower rt text in
      if text \<in> set seen_texts then Inr False
      else if is_noise_text cfg rt text \<or> is_unlikely_heading rt text then Inr False
      else if length text < 8 then Inr False
      else
        let words = split rt text in
        if length words > 1
           \<and> real (sum_list (map length words)) / real (length words) < min_word_avg_length cfg
        then Inr False
        else
          case passes_document_filters cfg profile text text_lower of
            Inl e \<Rightarrow> Inl e
          | Inr False \<Rightarrow> Inr False
          | Inr True \<Rightarrow>
              (case has_good_heading_structure cfg rt text of
                 Inl e \<Rightarrow> Inl e
               | Inr good \<Rightarrow>
                   Inr (good \<and> \<not> is_repetitive_content rt text seen_texts
                        \<and> is_likely_heading_content rt text)))"

fun filter_loop ::
  "config \<Rightarrow> ucd \<Rightarrow> doc_profile \<Rightarrow> pystr list \<Rightarrow> fragment list \<Rightarrow> py_error + fragment list"
where
  "filter_loop cfg rt profile seen_texts [] = Inr []"
| "filter_loop cfg rt profile seen_texts (candidate # rest) =
     (case keep_candidate cfg rt profile seen_texts candidate of
        Inl e \<Rightarrow> Inl e
      | Inr False \<Rightarrow> filter_loop cfg rt profile seen_texts rest
      | Inr True \<Rightarrow>
          (case filter_loop cfg rt profile (strip rt (ftext candidate) # seen_texts) rest of
             Inl e \<Rightarrow> Inl e
           | Inr filtered \<Rightarrow> Inr (candidate # filtered)))"

definition filter_candidates ::
  "config \<Rightarrow> ucd \<Rightarrow> doc_profile \<Rightarrow> fragment list \<Rightarrow> py_error + fragment list" where
  "filter_candidates cfg rt profile candidates =
     (if candidates = [] then Inr [] else filter_loop cfg rt profile [] candidates)"

text \<open>Profiles for examples: a document of no special type, a form, a technical document.\<close>

definition simple_profile :: doc_profile where
  "simple_profile = \<lparr> is_form = False, is_academic = False, is_technical = False \<rparr>"

definition form_profile :: doc_profile where
  "form_profile = \<lparr> is_form = True, is_academic = False, is_technical = False \<rparr>"


section \<open>Heading levels from numbering (level determiner)\<close>

text \<open>The five patterns of \<^verbatim>\<open>_get_structural_level\<close>, in the order they are tested.\<close>

definition pat_numbered :: rx where   \<comment> \<open>\<^verbatim>\<open>^\d+\.\s+[A-Z]\<close>\<close>
  "pat_numbered = Cat [Bol, Plus rx_d, rx_dot, Plus rx_s, rx_AZ]"

definition pat_numbered2 :: rx where  \<comment> \<open>\<^verbatim>\<open>^\d+\.\d+\s+[A-Z]\<close>\<close>
  "pat_numbered2 = Cat [Bol, Plus rx_d, rx_dot, Plus rx_d, Plus rx_s, rx_AZ]"

definition pat_numbered3 :: rx where  \<comment> \<open>\<^verbatim>\<open>^\d+\.\d+\.\d+\s+[A-Z]\<close>\<close>
  "pat_numbered3 = Cat [Bol, Plus rx_d, rx_dot, Plus rx_d, rx_dot, Plus rx_d, Plus rx_s, rx_AZ]"

definition pat_lettered :: rx where   \<comment> \<open>\<^verbatim>\<open>^[A-Z]\.\s+[A-Z]\<close>\<close>
  "pat_lettered = Cat [Bol, rx_AZ, rx_dot, Plus rx_s, rx_AZ]"

definition pat_roman :: rx where      \<comment> \<open>\<^verbatim>\<open>^[IVX]+\.\s+[A-Z]\<close>\<close>
  "pat_roman = Cat [Bol, Plus (Set (Lits (asc ''IVX''))), rx_dot, Plus rx_s, rx_AZ]"

definition get_structural_level :: "ucd \<Rightarrow> pystr \<Rightarrow> string" where
  "get_structural_level rt text =
     (if re_match rt pat_numbered text then ''H1''
      else if re_match rt pat_numbered2 text then ''H2''
      else if re_match rt pat_numbered3 text then ''H3''
      else if re_match rt pat_lettered text then ''H2''
      else if re_match rt pat_roman text then ''H1''
      else [])"

section \<open>Accuracy enhancer\<close>

text \<open>
  The dictionaries the accuracy enhancer receives are the headings built by the level
  determiner: the keys \<^verbatim>\<open>level\<close>, \<^verbatim>\<open>text\<close> and \<^verbatim>\<open>page\<close> are present; the keys
  \<^verbatim>\<open>size\<close>, \<^verbatim>\<open>bold\<close>, \<^verbatim>\<open>language\<close> and \<^verbatim>\<open>quality_boost\<close> are read with
  \<^verbatim>\<open>get\<close> and may be absent.  The field \<open>ctext\<close> is the key \<^verbatim>\<open>text\<close>, \<open>hsize\<close> the key
  \<^verbatim>\<open>size\<close>, \<open>hbold\<close> the key \<^verbatim>\<open>bold\<close>.  The argument \<^verbatim>\<open>doc_profile\<close> is never read
  by the enhancer and is left out.
\<close>

record heading =
  level :: string
  ctext :: pystr
  page :: int
  hsize :: "real option"
  hbold :: "bool option"
  language :: "string option"
  quality_boost :: "real option"

text \<open>The dictionary the level determiner builds for a heading.\<close>

definition structured :: "string \<Rightarrow> pystr \<Rightarrow> int \<Rightarrow> heading" where
  "structured lv t p =
     \<lparr> level = lv, ctext = t, page = p, hsize = None, hbold = None, language = None,
       quality_boost = None \<rparr>"

definition get_size :: "heading \<Rightarrow> real" where   \<comment> \<open>\<^verbatim>\<open>c.get('size', 12.0)\<close>\<close>
  "get_size c = (case hsize c of None \<Rightarrow> 12 | Some s \<Rightarrow> s)"

definition get_bold :: "heading \<Rightarrow> bool" where   \<comment> \<open>\<^verbatim>\<open>c.get('bold', False)\<close>\<close>
  "get_bold c = (case hbold c of None \<Rightarrow> False | Some b \<Rightarrow> b)"

definition get_quality_boost :: "heading \<Rightarrow> real" where   \<comment> \<open>\<^verbatim>\<open>c.get('quality_boost', 0)\<close>\<close>
  "get_quality_boost c = (case quality_boost c of None \<Rightarrow> 0 | Some b \<Rightarrow> b)"

subsection \<open>Precision filters\<close>

definition pat_numeric_symbolic :: rx where   \<comment> \<open>\<^verbatim>\<open>^[\d\s\-_\.]+$\<close>\<close>
  "pat_numeric_symbolic = Cat [Bol, Plus (Set [Digit, Space, Lit 45, Lit 95, Lit 46]), Eol]"

definition meets_minimum_quality :: "ucd \<Rightarrow> pystr \<Rightarrow> bool" where
  "meets_minimum_quality rt text =
     (if length text < 3 \<or> length text > 200 then False
      else if length (remdups (u_tolower rt text)) < 3 then False
      else if length (split rt text) = 0 then False
      else if re_match rt pat_numeric_symbolic text then False
      else True)"

definition validates_hierarchy_consistency :: "heading \<Rightarrow> heading list \<Rightarrow> bool" where
  "validates_hierarchy_consistency candidate all_candidates = True"

definition validates_in_context :: "heading \<Rightarrow> heading list \<Rightarrow> bool" where
  "validates_in_context candidate all_candidates =
     (let same_page_headings = filter (\<lambda>c. page c = page candidate) all_candidates in
      if length same_page_headings > 10
         \<and> get_size candidate
             < sum_list (map get_size same_page_headings) / real (length same_page_headings) * 0.8
      then False
      else validates_hierarchy_consistency candidate all_candidates)"

definition has_consistent_typography :: "heading \<Rightarrow> heading list \<Rightarrow> bool" where
  "has_consistent_typography candidate all_candidates =
     (let similar_headings =
            filter (\<lambda>c. \<bar>get_size c - get_size candidate\<bar> < 1.0) all_candidates in
      if length similar_headings < 2 then True
      else
        let bold_ratio = real (length (filter get_bold similar_headings))
                           / real (length similar_headings) in
        if get_bold candidate \<and> bold_ratio < 0.3 then False
        else if \<not> get_bold candidate \<and> bold_ratio > 0.7 then False
        else True)"

definition non_heading_patterns :: "rx list" where
  "non_heading_patterns =
     [Cat [Str (asc ''page''), Plus rx_s, Plus rx_d],
      Cat [Str (asc ''figure''), Plus rx_s, Plus rx_d],
      Cat [Str (asc ''table''), Plus rx_s, Plus rx_d],
      Cat [Str (asc ''see''), Plus rx_s, Str (asc ''page'')],
      Cat [Str (asc ''continued''), Plus rx_s, Str (asc ''on'')],
      Cat [Str (asc ''end''), Plus rx_s, Str (asc ''of'')],
      Cat [Str (asc ''total''), Star rx_s, Chr 58],
      Cat [Str (asc ''sum''), Star rx_s, Chr 58],
      Cat [Str (asc ''amount''), Star rx_s, Chr 58]]"

text \<open>
  The search for heading indicators that follows the loop in the source has no effect on
  the result, which is \<^verbatim>\<open>True\<close> once no pattern of the list was found.
\<close>

definition validates_semantically :: "ucd \<Rightarrow> pystr \<Rightarrow> bool" where
  "validates_semantically rt text =
     (let text_lower = u_tolower rt text in
      if list_ex (\<lambda>pattern. re_search rt pattern text_lower) non_heading_patterns then False
      else True)"

definition apply_precision_filters :: "ucd \<Rightarrow> heading list \<Rightarrow> heading list" where
  "apply_precision_filters rt candidates =
     filter (\<lambda>candidate.
        let text = strip rt (ctext candidate) in
        meets_minimum_quality rt text
        \<and> validates_in_context candidate candidates
        \<and> has_consistent_typography candidate candidates
        \<and> validates_semantically rt text) candidates"

subsection \<open>Recall enhancement\<close>

text \<open>\<open>seen\<close> is the set of keys met so far.\<close>

fun deduplicate_from :: "ucd \<Rightarrow> pystr list \<Rightarrow> heading list \<Rightarrow> heading list" where
  "deduplicate_from rt seen [] = []"
| "deduplicate_from rt seen (candidate # rest) =
     (let text_key = u_tolower rt (strip rt (ctext candidate)) in
      if text_key \<in> set seen then deduplicate_from rt seen rest
      else candidate # deduplicate_from rt (text_key # seen) rest)"

definition deduplicate_candidates :: "ucd \<Rightarrow> heading list \<Rightarrow> heading list" where
  "deduplicate_candidates rt candidates = deduplicate_from rt [] candidates"

text \<open>The three recovery strategies of the source return the empty list.\<close>

definition apply_recall_enhancement :: "ucd \<Rightarrow> heading list \<Rightarrow> heading list" where
  "apply_recall_enhancement rt candidates = deduplicate_candidates rt (candidates @ [] @ [] @ [])"

subsection \<open>Multilingual enhancement\<close>

text \<open>
  The table \<^verbatim>\<open>multilingual_patterns\<close>: for a language, its section keywords and its
  numbering patterns (the structure indicators of the source are never read).
\<close>

definition pat_dotted_number :: rx where   \<comment> \<open>\<^verbatim>\<open>\d+\.\d+\<close>\<close>
  "pat_dotted_number = Cat [Plus rx_d, rx_dot, Plus rx_d]"

definition multilingual_patterns :: "(string \<times> pystr list \<times> rx list) list" where
  "multilingual_patterns =
     [(''japanese'',
        [[0x7AE0], [0x7BC0], [0x9805], [0x6982, 0x8981], [0x80CC, 0x666F], [0x7D50, 0x8AD6],
         [0x53C2, 0x8003, 0x6587, 0x732E], [0x4ED8, 0x9332]],
        [Cat [Chr 0x7B2C, Plus rx_d, Chr 0x7AE0],
         Cat [Chr 0x7B2C, Plus rx_d, Chr 0x7BC0],
         pat_dotted_number,
         Cat [Plus (Set (Lits [0x4E00, 0x4E8C, 0x4E09, 0x56DB, 0x4E94, 0x516D, 0x4E03, 0x516B,
                               0x4E5D, 0x5341])), Chr 0x7AE0]]),
      (''chinese'',
        [[0x7AE0], [0x8282], [0x6982, 0x8FF0], [0x80CC, 0x666F], [0x7ED3, 0x8BBA],
         [0x53C2, 0x8003, 0x6587, 0x732E], [0x9644, 0x5F55]],
        [Cat [Chr 0x7B2C, Plus rx_d, Chr 0x7AE0],
         Cat [Chr 0x7B2C, Plus rx_d, Chr 0x8282],
         pat_dotted_number]),
      (''korean'',
        [[0xC7A5], [0xC808], [0xAC1C, 0xC694], [0xBC30, 0xACBD], [0xACB0, 0xB860],
         [0xCC38, 0xACE0, 0xBB38, 0xD5CC], [0xBD80, 0xB85D]],
        [Cat [Chr 0xC81C, Plus rx_d, Chr 0xC7A5],
         Cat [Chr 0xC81C, Plus rx_d, Chr 0xC808],
         pat_dotted_number]),
      (''arabic'',
        [[0x641, 0x635, 0x644], [0x628, 0x627, 0x628], [0x62E, 0x644, 0x627, 0x635, 0x629],
         [0x645, 0x642, 0x62F, 0x645, 0x629], [0x62E, 0x627, 0x62A, 0x645, 0x629],
         [0x645, 0x631, 0x627, 0x62C, 0x639]],
        [pat_dotted_number,
         Cat [Str [0x627, 0x644, 0x641, 0x635, 0x644], Plus rx_s, Plus rx_d]]),
      (''european'',
        [asc ''introducci'' @ [0xF3] @ asc ''n'', asc ''conclusi'' @ [0xF3] @ asc ''n'',
         asc ''r'' @ [0xE9] @ asc ''sum'' @ [0xE9], asc ''einf'' @ [0xFC] @ asc ''hrung'',
         asc ''zusammenfassung''],
        [pat_dotted_number,
         Cat [Str (asc ''cap'' @ [0xED] @ asc ''tulo''), Plus rx_s, Plus rx_d],
         Cat [Str (asc ''chapitre''), Plus rx_s, Plus rx_d],
         Cat [Str (asc ''kapitel''), Plus rx_s, Plus rx_d]])]"

definition enhance_with_language_patterns :: "ucd \<Rightarrow> heading \<Rightarrow> string \<Rightarrow> heading" where
  "enhance_with_language_patterns rt candidate lang =
     (let text = ctext candidate;
          (section_keywords, numbering_patterns) =
             (case map_of multilingual_patterns lang of None \<Rightarrow> ([], []) | Some p \<Rightarrow> p);
          has_section_keyword = list_ex (\<lambda>keyword. contains text keyword) section_keywords;
          has_numbering = list_ex (\<lambda>pattern. re_search rt pattern text) numbering_patterns;
          quality_boost = 0 + (if has_section_keyword then 0.2 else 0)
                            + (if has_numbering then 0.3 else 0)
      in candidate\<lparr>language := Some lang, quality_boost := Some quality_boost\<rparr>)"

definition normalize_unicode_text :: "ucd \<Rightarrow> pystr \<Rightarrow> pystr" where
  "normalize_unicode_text rt text = join (split rt (u_nfc rt text))"

definition apply_multilingual_enhancement :: "ucd \<Rightarrow> heading list \<Rightarrow> heading list" where
  "apply_multilingual_enhancement rt candidates =
     map (\<lambda>candidate.
        let text = ctext candidate;
            detected_language = detect_text_language rt text;
            candidate' = (if detected_language \<in> set (map fst multilingual_patterns)
                          then enhance_with_language_patterns rt candidate detected_language
                          else candidate)
        in candidate'\<lparr>ctext := normalize_unicode_text rt text\<rparr>) candidates"

subsection \<open>Quality score\<close>

definition heading_quality_weights :: "(string \<times> real) list" where
  "heading_quality_weights =
     [(''structural_pattern'', 0.35), (''content_semantic'', 0.25), (''typography'', 0.20),
      (''position'', 0.15), (''multilingual'', 0.05)]"

definition section_patterns :: "rx list" where
  "section_patterns =
     [Str (asc ''introduction''), Str (asc ''conclusion''), Str (asc ''summary''),
      Str (asc ''overview''), Str (asc ''background''), Str (asc ''methodology''),
      Str (asc ''results''), Str (asc ''discussion''), Str (asc ''references''),
      Str (asc ''appendix''),
      Cat [Str (asc ''chapter''), Plus rx_s, Plus rx_d],
      Cat [Str (asc ''section''), Plus rx_s, Plus rx_d]]"

definition score_structural_patterns :: "ucd \<Rightarrow> heading \<Rightarrow> real" where
  "score_structural_patterns rt candidate =
     (let text = ctext candidate;
          score = 0.0;
          score =
            (if re_match rt (Cat [Bol, Plus rx_d, rx_dot, Plus rx_s]) text then score + 0.9
             else if re_match rt (Cat [Bol, Plus rx_d, rx_dot, Plus rx_d, Plus rx_s]) text
               then score + 0.8
             else if re_match rt (Cat [Bol, rx_AZ, rx_dot, Plus rx_s]) text then score + 0.7
             else score);
          score =
            (if list_ex (\<lambda>pattern. re_search rt pattern (u_tolower rt text)) section_patterns
             then score + 0.6 else score)
      in min 1.0 score)"

definition score_semantic_content :: "ucd \<Rightarrow> heading \<Rightarrow> real" where
  "score_semantic_content rt candidate =
     (let text = ctext candidate;
          score = 0.0;
          len = length text;
          score = (if 10 \<le> len \<and> len \<le> 60 then score + 0.8
                   else if 5 \<le> len \<and> len \<le> 100 then score + 0.6
                   else score + 0.3);
          word_count = length (split rt text);
          score = (if 2 \<le> word_count \<and> word_count \<le> 8 then score + 0.7
                   else if 1 \<le> word_count \<and> word_count \<le> 12 then score + 0.5
                   else score);
          score = (if istitle rt text then score + 0.5
                   else if isupper rt text \<and> len < 50 then score + 0.4
                   else score)
      in min 1.0 score)"

text \<open>\<^verbatim>\<open>max(xs)\<close> of a non-empty list.\<close>

fun maximum :: "real list \<Rightarrow> real" where
  "maximum [] = 0"
| "maximum [x] = x"
| "maximum (x # xs) = max x (maximum xs)"

definition score_typography :: "heading \<Rightarrow> heading list \<Rightarrow> real" where
  "score_typography candidate all_candidates =
     (let size = get_size candidate;
          bold = get_bold candidate;
          sizes = map get_size all_candidates
      in if sizes \<noteq> [] then
           let max_size = maximum sizes;
               size_ratio = (if max_size > 0 then size / max_size else 0.5)
           in if size_ratio > 0.9 then 0.9
              else if size_ratio > 0.7 then 0.7
              else if size_ratio > 0.5 then 0.5
              else 0.3
         else if bold then min 1.0 (0.6 + (if size > 12 then 0.3 else 0.1))
         else 0.5)"

definition score_position :: "heading \<Rightarrow> real" where
  "score_position candidate =
     (let p = page candidate in
      if p \<le> 2 then 0.9 else if p \<le> 5 then 0.7 else if p \<le> 10 then 0.6 else 0.5)"

text \<open>
  The dictionary \<^verbatim>\<open>scores\<close> has the keys \<^verbatim>\<open>structural\<close>, \<^verbatim>\<open>semantic\<close>,
  \<^verbatim>\<open>typography\<close>, \<^verbatim>\<open>position\<close> and \<^verbatim>\<open>multilingual\<close>.  A weight other than the
  multilingual one looks its score up under the part of its own name before the first
  underscore, with 0 for a key that is absent.
\<close>

definition score_key :: "string \<Rightarrow> string" where   \<comment> \<open>\<^verbatim>\<open>component.split('_')[0]\<close>\<close>
  "score_key component = takeWhile (\<lambda>c. c \<noteq> CHR ''_'') component"

definition calculate_quality_score :: "ucd \<Rightarrow> heading \<Rightarrow> heading list \<Rightarrow> real" where
  "calculate_quality_score rt candidate all_candidates =
     (let scores =
            [(''structural'', score_structural_patterns rt candidate),
             (''semantic'', score_semantic_content rt candidate),
             (''typography'', score_typography candidate all_candidates),
             (''position'', score_position candidate),
             (''multilingual'', get_quality_boost candidate)];
          total_score =
            fold (\<lambda>(component, weight) total.
                    if component = ''multilingual''
                    then total + weight * the (map_of scores ''multilingual'')
                    else total + weight * (case map_of scores (score_key component) of
                                             None \<Rightarrow> 0 | Some v \<Rightarrow> v))
                 heading_quality_weights 0
      in min 1.0 total_score)"

subsection \<open>Threshold, selection and metrics\<close>

definition calculate_dynamic_threshold_from_scores :: "real list \<Rightarrow> real" where
  "calculate_dynamic_threshold_from_scores scores =
     (if scores = [] then 0.5
      else
        let sorted_scores = sort scores;
            median_score = sorted_scores ! (length sorted_scores div 2)
        in max 0.3 (min 0.8 (median_score * 0.8)))"

text \<open>
  \<^verbatim>\<open>round(x, 3)\<close> on an exact number: the nearest multiple of 1/1000, the even one
  when two are equally near.
\<close>

definition round_half_even :: "real \<Rightarrow> int" where
  "round_half_even y =
     (let f = \<lfloor>y\<rfloor>; d = y - of_int f in
      if d < 1/2 then f else if d > 1/2 then f + 1 else if even f then f else f + 1)"

definition round3 :: "real \<Rightarrow> real" where
  "round3 x = of_int (round_half_even (x * 1000)) / 1000"

record metrics =
  precision_score :: real
  recall_score :: real
  f1_score :: real
  total_candidates :: nat
  selected_count :: nat

definition calculate_accuracy_metrics :: "'a list \<Rightarrow> 'b list \<Rightarrow> metrics" where
  "calculate_accuracy_metrics selected all_candidates =
     (let n_total = length all_candidates;
          n_selected = length selected;
          precision =
            (if n_selected > 0
             then min 1.0 (0.8 + 0.2 * (1 - real n_selected / real (max 1 n_total)))
             else 0.0);
          recall = min 1.0 (real n_selected / max 1 (real n_total * 0.7));
          f1 = (if precision + recall > 0
                then 2 * (precision * recall) / (precision + recall)
                else 0.0)
      in \<lparr> precision_score = round3 precision, recall_score = round3 recall,
           f1_score = round3 f1, total_candidates = n_total, selected_count = n_selected \<rparr>)"

text \<open>
  The pairs of candidate and score are sorted by descending score with a stable sort;
  the threshold is computed from the scores; the candidates at or above it are kept in
  the sorted order.
\<close>

definition select_final :: "('a \<times> real) list \<Rightarrow> 'a list" where
  "select_final candidate_score_pairs =
     (let sorted_pairs = sort_key (\<lambda>x. - snd x) candidate_score_pairs;
          threshold = calculate_dynamic_threshold_from_scores (map snd candidate_score_pairs)
      in map fst (filter (\<lambda>pair. snd pair \<ge> threshold) sorted_pairs))"

definition apply_quality_scoring :: "ucd \<Rightarrow> heading list \<Rightarrow> heading list \<times> metrics" where
  "apply_quality_scoring rt candidates =
     (let scored_candidates = candidates;
          quality_scores = map (\<lambda>candidate. calculate_quality_score rt candidate candidates)
                               candidates;
          final_candidates = select_final (zip scored_candidates quality_scores)
      in (final_candidates, calculate_accuracy_metrics final_candidates scored_candidates))"

definition enhance_heading_detection :: "ucd \<Rightarrow> heading list \<Rightarrow> heading list \<times> metrics" where
  "enhance_heading_detection rt candidates =
     (let high_precision_candidates = apply_precision_filters rt candidates;
          enhanced_candidates = apply_recall_enhancement rt high_precision_candidates;
          multilingual_enhanced = apply_multilingual_enhancement rt enhanced_candidates
      in apply_quality_scoring rt multilingual_enhanced)"

section \<open>Level determiner\<close>

definition main_section_keywords :: "pystr list" where
  "main_section_keywords =
     map asc [''introduction'', ''overview'', ''background'', ''conclusion'', ''summary'',
              ''methodology'', ''results'', ''discussion'', ''references'', ''appendix'']"

definition toc_keywords :: "pystr list" where
  "toc_keywords =
     map asc [''table of contents'', ''contents'', ''revision history'', ''references'']"

definition get_content_based_level :: "ucd \<Rightarrow> pystr \<Rightarrow> string" where
  "get_content_based_level rt text =
     (let text_lower = u_tolower rt text in
      if list_ex (\<lambda>keyword. contains text_lower keyword) main_section_keywords then ''H1''
      else if list_ex (\<lambda>keyword. contains text_lower keyword) toc_keywords then ''H2''
      else [])"

definition get_position_based_level :: "fragment \<Rightarrow> string" where
  "get_position_based_level candidate =
     (if fpage candidate \<le> 2 \<and> length (ftext candidate) < 50 then ''H1'' else [])"

definition get_score_based_level :: "ucd \<Rightarrow> fragment \<Rightarrow> fragment list \<Rightarrow> string" where
  "get_score_based_level rt candidate all_candidates =
     (let text = ftext candidate;
          size = fsize candidate;
          bold = fbold candidate;
          font_sizes = map fsize all_candidates;
          unique_sizes = rev (sort (remdups font_sizes));
          score = (0::int);
          score = (if size \<in> set (take 1 unique_sizes) then score + 3
                   else if size \<in> set (take 1 (drop 1 unique_sizes)) then score + 2
                   else if size \<in> set (take 1 (drop 2 unique_sizes)) then score + 1
                   else score);
          score = (if bold then score + 2 else score);
          score = (if length text < 20 then score + 2
                   else if length text < 40 then score + 1
                   else score);
          score = (if fpage candidate \<le> 3 then score + 1 else score);
          score = (if istitle rt text \<or> (length (split rt text) \<le> 3 \<and> isupper rt text)
                   then score + 1 else score)
      in if score \<ge> 6 then ''H1'' else if score \<ge> 4 then ''H2'' else ''H3'')"

definition determine_heading_level :: "ucd \<Rightarrow> fragment \<Rightarrow> fragment list \<Rightarrow> string" where
  "determine_heading_level rt candidate all_candidates =
     (let text = ftext candidate;
          structural_level = get_structural_level rt text in
      if structural_level \<noteq> [] then structural_level
      else
        let content_level = get_content_based_level rt text in
        if content_level \<noteq> [] then content_level
        else
          let position_level = get_position_based_level candidate in
          if position_level \<noteq> [] then position_level
          else get_score_based_level rt candidate all_candidates)"

text \<open>The sort key \<^verbatim>\<open>(x['page'], x['bbox'][1] if x['bbox'] else 0)\<close>; pairs are ordered
  lexicographically and the sort is stable.\<close>

definition position_key :: "fragment \<Rightarrow> int \<times> real" where
  "position_key x = (fpage x, (case bbox x of None \<Rightarrow> 0 | Some b \<Rightarrow> box_y0 b))"

definition build_hierarchy :: "ucd \<Rightarrow> fragment list \<Rightarrow> heading list" where
  "build_hierarchy rt candidates =
     (if candidates = [] then []
      else
        let candidates = sort_key position_key candidates in
        map (\<lambda>candidate.
               structured (determine_heading_level rt candidate candidates)
                          (ftext candidate) (fpage candidate - 1)) candidates)"



section \<open>Extraction of the structure of a document\<close>

text \<open>
  What a call can raise: an exception of the modelled code, an exception of a library
  (the PDF reader, the multimodal model), named by its class, and the two exceptions of
  Python that are not instances of \<^verbatim>\<open>Exception\<close>.
\<close>

datatype py_exception = Raised py_error | LibraryError string | KeyboardInterrupt | SystemExit

fun is_Exception :: "py_exception \<Rightarrow> bool" where   \<comment> \<open>\<^verbatim>\<open>isinstance(e, Exception)\<close>\<close>
  "is_Exception (Raised e) = True"
| "is_Exception (LibraryError cls) = True"
| "is_Exception KeyboardInterrupt = False"
| "is_Exception SystemExit = False"


text \<open>
  The multimodal enhancer, when it is loaded: its two entry points.  An opened document
  is the list of the blocks of its pages.
\<close>

record layoutlmv3 =
  enhance_document_analysis :: "block list list \<Rightarrow> doc_profile \<Rightarrow> py_exception + doc_profile"
  layout_heading_detection ::
    "heading list \<Rightarrow> block list list \<Rightarrow> doc_profile \<Rightarrow> py_exception + heading list"

text \<open>
  The extractor object: its configuration, whether the accuracy enhancer is present, the
  multimodal enhancer if any, and the calls whose code is not modelled here: opening the
  file, the document analyzer, the title extractor and k-means.
\<close>

record extractor =
  config :: config
  accuracy_enhancer :: bool
  layoutlmv3_enhancer :: "layoutlmv3 option"
  fitz_open :: "pystr \<Rightarrow> py_exception + block list list"
  analyze_document :: "block list list \<Rightarrow> py_exception + doc_profile"
  extract_title :: "block list list \<Rightarrow> doc_profile \<Rightarrow> py_exception + pystr"
  fit_predict :: "int \<Rightarrow> real list list \<Rightarrow> nat list"

text \<open>\<^verbatim>\<open>HeadingExtractor.extract_headings\<close>: candidates, filter, hierarchy.\<close>

definition extract_headings ::
  "config \<Rightarrow> ucd \<Rightarrow> (int \<Rightarrow> real list list \<Rightarrow> nat list) \<Rightarrow> block list list \<Rightarrow> doc_profile
     \<Rightarrow> py_error + heading list" where
  "extract_headings cfg rt kmeans doc profile =
     (case get_ml_heading_candidates cfg rt kmeans doc of
        Inl e \<Rightarrow> Inl e
      | Inr candidates \<Rightarrow>
          (case filter_candidates cfg rt profile candidates of
             Inl e \<Rightarrow> Inl e
           | Inr filtered_candidates \<Rightarrow> Inr (build_hierarchy rt filtered_candidates)))"

text \<open>
  The result dictionary; the key \<^verbatim>\<open>_accuracy_metrics\<close> is present when the accuracy
  enhancer ran.
\<close>

record result =
  title :: pystr
  outline :: "heading list"
  accuracy_metrics :: "metrics option"

definition empty_result :: result where   \<comment> \<open>\<^verbatim>\<open>{"title": "", "outline": []}\<close>\<close>
  "empty_result = \<lparr> title = [], outline = [], accuracy_metrics = None \<rparr>"

text \<open>The body of the \<^verbatim>\<open>try\<close> statement of \<^verbatim>\<open>extract_structure\<close>.\<close>

definition extract_structure_body :: "ucd \<Rightarrow> extractor \<Rightarrow> pystr \<Rightarrow> py_exception + result" where
  "extract_structure_body rt self pdf_path =
     (case fitz_open self pdf_path of
        Inl e \<Rightarrow> Inl e
      | Inr doc \<Rightarrow>
     (case analyze_document self doc of
        Inl e \<Rightarrow> Inl e
      | Inr doc_profile \<Rightarrow>
     (case (case layoutlmv3_enhancer self of
              None \<Rightarrow> Inr doc_profile
            | Some enhancer \<Rightarrow> enhance_document_analysis enhancer doc doc_profile) of
        Inl e \<Rightarrow> Inl e
      | Inr doc_profile \<Rightarrow>
     (case extract_title self doc doc_profile of
        Inl e \<Rightarrow> Inl e
      | Inr doc_title \<Rightarrow>
     (case extract_headings (config self) rt (fit_predict self) doc doc_profile of
        Inl e \<Rightarrow> Inl (Raised e)
      | Inr raw_headings \<Rightarrow>
     (case (case layoutlmv3_enhancer self of
              None \<Rightarrow> Inr raw_headings
            | Some enhancer \<Rightarrow> layout_heading_detection enhancer raw_headings doc doc_profile) of
        Inl e \<Rightarrow> Inl e
      | Inr raw_headings \<Rightarrow>
          (if accuracy_enhancer self
           then (case enhance_heading_detection rt raw_headings of
                   (enhanced_headings, computed_metrics) \<Rightarrow>
                     Inr \<lparr> title = doc_title, outline = enhanced_headings,
                           accuracy_metrics = Some computed_metrics \<rparr>)
           else Inr \<lparr> title = doc_title, outline = raw_headings, accuracy_metrics = None \<rparr>)))))))"

text \<open>
  The outcome of a call: what it returns or raises, and the errors it reports on the
  standard output, each with the path it was processing.
\<close>

record outcome =
  returned :: "py_exception + result"
  printed :: "(pystr \<times> py_exception) list"

text \<open>
  \<^verbatim>\<open>extract_structure\<close>: the handler \<^verbatim>\<open>except Exception as e\<close> prints the error and returns
  the empty result; an exception that is not an instance of \<^verbatim>\<open>Exception\<close> is not handled.
\<close>

definition extract_structure :: "ucd \<Rightarrow> extractor \<Rightarrow> pystr \<Rightarrow> outcome" where
  "extract_structure rt self pdf_path =
     (case extract_structure_body rt self pdf_path of
        Inr res \<Rightarrow> \<lparr> returned = Inr res, printed = [] \<rparr>
      | Inl e \<Rightarrow>
          if is_Exception e
          then \<lparr> returned = Inr empty_result, printed = [(pdf_path, e)] \<rparr>
          else \<lparr> returned = Inl e, printed = [] \<rparr>)"


section \<open>Facts about the pattern semantics\<close>

lemma re_search_Set: "re_search rt (Set cs) s = (\<exists>c\<in>set s. in_set rt cs c)"
proof -
  have "re_search rt (Set cs) s = (\<exists>i<length s. in_set rt cs (s ! i))"
    by (auto simp: re_search_def list_ex_iff less_Suc_eq_le)
  then show ?thesis
    by (simp add: in_set_conv_nth Bex_def) metis
qed

lemma jp_split:
  fixes c :: nat
  assumes "\<not> ((0x3040 \<le> c \<and> c \<le> 0x309F) \<or> (0x30A0 \<le> c \<and> c \<le> 0x30FF) \<or> (0x4E00 \<le> c \<and> c \<le> 0x9FAF))"
  shows "(0x4E00 \<le> c \<and> c \<le> 0x9FFF) = (0x9FB0 \<le> c \<and> c \<le> 0x9FFF)"
  using assms by linarith

lemma in_japanese: "in_set rt japanese_class c =
   ((0x3040 \<le> c \<and> c \<le> 0x309F) \<or> (0x30A0 \<le> c \<and> c \<le> 0x30FF) \<or> (0x4E00 \<le> c \<and> c \<le> 0x9FAF))"
  by (simp add: in_set_def japanese_class_def)

lemma in_chinese: "in_set rt chinese_class c = (0x4E00 \<le> c \<and> c \<le> 0x9FFF)"
  by (simp add: in_set_def chinese_class_def)


section \<open>Claims about language detection\<close>

text \<open>
  Claim C10.  The Japanese test runs first and its class contains the range
  U+4E00..U+9FAF of the Chinese class: a text with a character in U+3040..U+309F,
  U+30A0..U+30FF or U+4E00..U+9FAF is classified \<open>japanese\<close>, and the answer is
  \<open>chinese\<close> exactly for the texts that have no character in these ranges and have a
  character in U+9FB0..U+9FFF.
\<close>

theorem detect_text_language_japanese_first:
  fixes rt :: ucd and t :: pystr
  defines "jp \<equiv> \<lambda>c::nat. (0x3040 \<le> c \<and> c \<le> 0x309F) \<or> (0x30A0 \<le> c \<and> c \<le> 0x30FF)
                       \<or> (0x4E00 \<le> c \<and> c \<le> 0x9FAF)"
  shows "((\<exists>c\<in>set t. jp c) \<longrightarrow> detect_text_language rt t = ''japanese'')
       \<and> (detect_text_language rt t = ''chinese''
            \<longleftrightarrow> (\<forall>c\<in>set t. \<not> jp c) \<and> (\<exists>c\<in>set t. 0x9FB0 \<le> c \<and> c \<le> 0x9FFF))"
proof -
  have J: "re_search rt (Set japanese_class) t = (\<exists>c\<in>set t. jp c)"
    unfolding re_search_Set in_japanese jp_def ..
  have C: "re_search rt (Set chinese_class) t = (\<exists>c\<in>set t. 0x4E00 \<le> c \<and> c \<le> 0x9FFF)"
    unfolding re_search_Set in_chinese ..
  have S: "(\<exists>c\<in>set t. 0x4E00 \<le> c \<and> c \<le> 0x9FFF) = (\<exists>c\<in>set t. 0x9FB0 \<le> c \<and> c \<le> 0x9FFF)"
    if "\<forall>c\<in>set t. \<not> jp c"
  proof -
    have "(0x4E00 \<le> c \<and> c \<le> 0x9FFF) = (0x9FB0 \<le> c \<and> c \<le> 0x9FFF)" if "c \<in> set t" for c
      using jp_split [of c] \<open>\<forall>c\<in>set t. \<not> jp c\<close> that unfolding jp_def by blast
    then show ?thesis by blast
  qed
  show ?thesis
  proof (cases "\<exists>c\<in>set t. jp c")
    case True
    then show ?thesis by (simp add: detect_text_language_def J)
  next
    case False
    then have N: "\<forall>c\<in>set t. \<not> jp c" by blast
    show ?thesis
      using False N S [OF N] by (simp add: detect_text_language_def J C)
  qed
qed

theorem detect_text_language_japanese_first_witness:
  "detect_text_language ascii_ucd [0x7B2C, 49, 0x7AE0, 32, 0x6982, 0x8981] = ''japanese''
   \<and> detect_text_language ascii_ucd [0x9FB5] = ''chinese''"
proof -
  have 1: "detect_text_language ascii_ucd [0x7B2C, 49, 0x7AE0, 32, 0x6982, 0x8981] = ''japanese''"
    using detect_text_language_japanese_first [of "[0x7B2C, 49, 0x7AE0, 32, 0x6982, 0x8981]" ascii_ucd]
    by simp
  have 2: "detect_text_language ascii_ucd [0x9FB5] = ''chinese''"
    using detect_text_language_japanese_first [of "[0x9FB5]" ascii_ucd]
    by simp
  from 1 2 show ?thesis by simp
qed


section \<open>Claims about the structural level\<close>

text \<open>
  Claim C1.  The patterns are tested in the order of the source and the first match
  decides.  The lettered pattern and the roman pattern are not exclusive: the text
  "I. Introduction", the source's own example of a roman numeral at level H1, matches
  both, and the lettered pattern, tested first, gives it level H2.  A numeral of two
  letters reaches the roman pattern.
\<close>

theorem get_structural_level_roman_shadowed:
  "re_match ascii_ucd pat_lettered (asc ''I. Introduction'')
   \<and> re_match ascii_ucd pat_roman (asc ''I. Introduction'')
   \<and> get_structural_level ascii_ucd (asc ''I. Introduction'') = ''H2''
   \<and> get_structural_level ascii_ucd (asc ''II. Introduction'') = ''H1''"
  by code_simp

section \<open>Facts about scores, medians and rounding\<close>



lemma score_semantic_content_range:
  "0 \<le> score_semantic_content rt c \<and> score_semantic_content rt c \<le> 1"
  by (simp add: score_semantic_content_def Let_def)
















section \<open>Claims about quality scoring\<close>








section \<open>Claims about the order of the outline\<close>













section \<open>Claims about fragment reconstruction\<close>

lemma runs_Nil_iff: "runs R xs = [] \<longleftrightarrow> xs = []"
  by (induction R xs rule: runs.induct) (auto split: list.splits)

lemma concat_runs: "concat (runs R xs) = xs"
  by (induction R xs rule: runs.induct) (auto split: list.splits)

lemma runs_Cons_related:
  "R x y \<Longrightarrow> runs R (x # y # ys) = (x # hd (runs R (y # ys))) # tl (runs R (y # ys))"
  by (cases "runs R (y # ys)") (simp_all add: runs_Nil_iff)

lemma runs_Cons_unrelated:
  "\<not> R x y \<Longrightarrow> runs R (x # y # ys) = [x] # runs R (y # ys)"
  by simp

lemma runs_single_run:
  "cur \<noteq> [] \<Longrightarrow> successively R cur \<Longrightarrow> runs R cur = [cur]"
  by (induction R cur rule: runs.induct) auto

lemma runs_break:
  "\<not> R a b \<Longrightarrow> runs R (xs @ a # b # ys) = runs R (xs @ [a]) @ runs R (b # ys)"
proof (induction xs rule: induct_list012)
  case 1
  then show ?case by simp
next
  case (2 x)
  then show ?case
    by (cases "R x a") (simp_all add: runs_Cons_related runs_Cons_unrelated del: runs.simps(3))
next
  case (3 x y zs)
  have ne: "runs R (y # zs @ [a]) \<noteq> []" by (simp add: runs_Nil_iff)
  show ?case
  proof (cases "R x y")
    case True
    then show ?thesis
      using 3 ne by (simp add: runs_Cons_related del: runs.simps(3))
  next
    case False
    then show ?thesis
      using 3 by (simp add: runs_Cons_unrelated del: runs.simps(3))
  qed
qed

lemma runs_after_run:
  assumes "cur \<noteq> []" "successively R cur" "\<not> R (last cur) x"
  shows "runs R (cur @ x # rest) = cur # runs R (x # rest)"
proof -
  have "cur = butlast cur @ [last cur]" using assms(1) by simp
  then have "runs R (cur @ x # rest) = runs R (butlast cur @ last cur # x # rest)"
    by (metis append.assoc append_Cons append_Nil)
  also have "\<dots> = runs R (butlast cur @ [last cur]) @ runs R (x # rest)"
    using assms(3) by (rule runs_break)
  also have "\<dots> = cur # runs R (x # rest)"
    using assms(1,2) by (simp add: runs_single_run)
  finally show ?thesis .
qed

lemma reconstruct_loop_runs:
  "cur \<noteq> [] \<Longrightarrow> successively (mergeable cfg) cur \<Longrightarrow>
   reconstruct_loop cfg rt n acc cur rest =
     acc @ concat (map (process_group rt n) (runs (mergeable cfg) (cur @ rest)))"
proof (induction rest arbitrary: acc cur)
  case Nil
  then show ?case by (simp add: runs_single_run)
next
  case (Cons x rest)
  show ?case
  proof (cases "mergeable cfg (last cur) x")
    case True
    have s: "successively (mergeable cfg) (cur @ [x])"
      using Cons.prems True by (simp add: successively_append_iff)
    show ?thesis
      using Cons.IH [of "cur @ [x]" acc] s True by simp
  next
    case False
    show ?thesis
      using Cons.IH [of "[x]" "acc @ process_group rt n cur"] False
        runs_after_run [OF Cons.prems False, of rest]
      by simp
  qed
qed

lemma reconstruct_text_blocks_runs:
  "reconstruct_text_blocks cfg rt (l # ls) n =
     Inr (concat (map (process_group rt n) (runs (mergeable cfg) (l # ls))))"
  using reconstruct_loop_runs [of "[l]" cfg rt n "[]" ls]
  by (simp add: reconstruct_text_blocks_def)

lemma mergeable_conditions:
  "mergeable cfg p c =
     (\<bar>lsize c - lsize p\<bar> < size_tolerance cfg p c
      \<and> \<bar>y_pos c - y_pos p\<bar> < distance_limit cfg p c
      \<and> lbold c = lbold p)"
  by (auto simp: mergeable_def size_tolerance_def distance_limit_def both_title_sized_def Let_def)

lemma join_Cons:
  "A \<noteq> [] \<Longrightarrow>
   butlast ((x # hd A) # tl A) @ (last ((x # hd A) # tl A) @ h) # t =
     (x # hd (butlast A @ (last A @ h) # t)) # tl (butlast A @ (last A @ h) # t)"
proof (cases A)
  case Nil
  assume "A \<noteq> []"
  with Nil show ?thesis by simp
next
  case (Cons g gs)
  then show ?thesis by (cases gs) simp_all
qed

lemma runs_join:
  "R a b \<Longrightarrow> runs R (xs @ a # b # ys) =
     butlast (runs R (xs @ [a])) @ (last (runs R (xs @ [a])) @ hd (runs R (b # ys)))
       # tl (runs R (b # ys))"
proof (induction xs rule: induct_list012)
  case 1
  then show ?case by (simp add: runs_Cons_related del: runs.simps(3))
next
  case (2 x)
  then show ?case
    by (cases "R x a") (simp_all add: runs_Cons_related runs_Cons_unrelated del: runs.simps(3))
next
  case (3 x y zs)
  have ne: "runs R (y # zs @ [a]) \<noteq> []" by (simp add: runs_Nil_iff)
  show ?case
  proof (cases "R x y")
    case True
    have l: "runs R ((x # y # zs) @ a # b # ys)
        = (x # hd (runs R (y # zs @ a # b # ys))) # tl (runs R (y # zs @ a # b # ys))"
      using True by (simp add: runs_Cons_related del: runs.simps(3))
    have r: "runs R ((x # y # zs) @ [a])
        = (x # hd (runs R (y # zs @ [a]))) # tl (runs R (y # zs @ [a]))"
      using True by (simp add: runs_Cons_related del: runs.simps(3))
    have ih: "runs R (y # zs @ a # b # ys) =
        butlast (runs R (y # zs @ [a])) @ (last (runs R (y # zs @ [a])) @ hd (runs R (b # ys)))
          # tl (runs R (b # ys))"
      using 3 by simp
    show ?thesis
      unfolding l r ih using join_Cons [OF ne] by simp
  next
    case False
    then show ?thesis
      using 3 ne by (simp add: runs_Cons_unrelated butlast_append del: runs.simps(3))
  qed
qed

text \<open>
  Claim C4.  A line joins the group of the line before it exactly when the three
  conditions hold for the pair: the sizes differ by less than the tolerance, the vertical
  positions by less than the distance, and the bold states agree, where the tolerance and
  the distance are the relaxed ones when both sizes exceed the title threshold.  So the
  groups are the maximal runs of lines in which each line is mergeable with the next, and
  each group gives one fragment (none when its text has at most 5 characters).  Three
  lines that are mergeable pair by pair form one group.  A pair that is not mergeable
  separates the groups: the fragments are those of the lines up to the pair's first line
  followed by those of the lines from its second line on.  A pair that is mergeable joins
  the group that ends with its first line to the group that starts with its second.
\<close>

theorem reconstruct_text_blocks_merging:
  "mergeable cfg p c =
      (\<bar>lsize c - lsize p\<bar> < size_tolerance cfg p c
       \<and> \<bar>y_pos c - y_pos p\<bar> < distance_limit cfg p c
       \<and> lbold c = lbold p)
   \<and> reconstruct_text_blocks cfg rt (l # ls) n =
       Inr (concat (map (process_group rt n) (runs (mergeable cfg) (l # ls))))
   \<and> (mergeable cfg l1 l2 \<and> mergeable cfg l2 l3 \<longrightarrow>
        reconstruct_text_blocks cfg rt [l1, l2, l3] n = Inr (process_group rt n [l1, l2, l3]))
   \<and> (\<not> mergeable cfg a b \<longrightarrow>
        runs (mergeable cfg) (xs @ a # b # ys)
          = runs (mergeable cfg) (xs @ [a]) @ runs (mergeable cfg) (b # ys)
        \<and> (\<forall>A B. reconstruct_text_blocks cfg rt (xs @ [a]) n = Inr A
                 \<and> reconstruct_text_blocks cfg rt (b # ys) n = Inr B
               \<longrightarrow> reconstruct_text_blocks cfg rt (xs @ a # b # ys) n = Inr (A @ B)))
   \<and> (mergeable cfg a b \<longrightarrow>
        runs (mergeable cfg) (xs @ a # b # ys)
          = butlast (runs (mergeable cfg) (xs @ [a]))
            @ (last (runs (mergeable cfg) (xs @ [a])) @ hd (runs (mergeable cfg) (b # ys)))
            # tl (runs (mergeable cfg) (b # ys)))"
proof -
  have three: "reconstruct_text_blocks cfg rt [l1, l2, l3] n = Inr (process_group rt n [l1, l2, l3])"
    if "mergeable cfg l1 l2" "mergeable cfg l2 l3"
    using that by (simp add: reconstruct_text_blocks_def)
  have frag: "reconstruct_text_blocks cfg rt (xs @ a # b # ys) n = Inr (A @ B)"
    if "\<not> mergeable cfg a b" "reconstruct_text_blocks cfg rt (xs @ [a]) n = Inr A"
      "reconstruct_text_blocks cfg rt (b # ys) n = Inr B" for A B
  proof -
    obtain z zs where z: "xs @ [a] = z # zs" by (cases "xs @ [a]") simp_all
    obtain w ws where w: "xs @ a # b # ys = w # ws" by (cases "xs @ a # b # ys") simp_all
    have A: "A = concat (map (process_group rt n) (runs (mergeable cfg) (xs @ [a])))"
      using that(2) reconstruct_text_blocks_runs [of cfg rt z zs n] z by simp
    have B: "B = concat (map (process_group rt n) (runs (mergeable cfg) (b # ys)))"
      using that(3) reconstruct_text_blocks_runs [of cfg rt b ys n] by simp
    show ?thesis
      using reconstruct_text_blocks_runs [of cfg rt w ws n] w
        runs_break [of "mergeable cfg" a b xs ys] that(1) A B
      by simp
  qed
  show ?thesis
    using mergeable_conditions [of cfg p c] reconstruct_text_blocks_runs [of cfg rt l ls n]
      three frag runs_break [of "mergeable cfg" a b xs ys] runs_join [of "mergeable cfg" a b xs ys]
    by blast
qed

theorem reconstruct_text_blocks_merging_witness:
  "mergeable get_default_config (example_line ''Annual Report'' 12 False 100)
      (example_line ''of the Board'' 12 False 115)
   \<and> mergeable get_default_config (example_line ''of the Board'' 12 False 115)
      (example_line ''for 2023'' 12.5 False 130)
   \<and> \<not> mergeable get_default_config (example_line ''for 2023'' 12.5 False 130)
      (example_line ''Chapter One'' 12 True 145)
   \<and> reconstruct_text_blocks get_default_config ascii_ucd
        [example_line ''Annual Report'' 12 False 100, example_line ''of the Board'' 12 False 115,
         example_line ''for 2023'' 12.5 False 130] 0
      = Inr (process_group ascii_ucd 0
        [example_line ''Annual Report'' 12 False 100, example_line ''of the Board'' 12 False 115,
         example_line ''for 2023'' 12.5 False 130])
   \<and> map ftext (process_group ascii_ucd 0
        [example_line ''Annual Report'' 12 False 100, example_line ''of the Board'' 12 False 115,
         example_line ''for 2023'' 12.5 False 130])
      = [asc ''Annual Report of the Board for 2023'']
   \<and> runs (mergeable get_default_config)
        ([example_line ''Annual Report'' 12 False 100, example_line ''of the Board'' 12 False 115]
          @ example_line ''for 2023'' 12.5 False 130 # example_line ''Chapter One'' 12 True 145 # [])
      = runs (mergeable get_default_config)
          ([example_line ''Annual Report'' 12 False 100, example_line ''of the Board'' 12 False 115]
            @ [example_line ''for 2023'' 12.5 False 130])
        @ runs (mergeable get_default_config) [example_line ''Chapter One'' 12 True 145]"
proof -
  have m1: "mergeable get_default_config (example_line ''Annual Report'' 12 False 100)
      (example_line ''of the Board'' 12 False 115)"
    by (simp add: mergeable_def get_default_config_def example_line_def)
  have m2: "mergeable get_default_config (example_line ''of the Board'' 12 False 115)
      (example_line ''for 2023'' 12.5 False 130)"
    by (simp add: mergeable_def get_default_config_def example_line_def)
  have m3: "\<not> mergeable get_default_config (example_line ''for 2023'' 12.5 False 130)
      (example_line ''Chapter One'' 12 True 145)"
    by (simp add: mergeable_def get_default_config_def example_line_def)
  have t: "map ftext (process_group ascii_ucd 0
        [example_line ''Annual Report'' 12 False 100, example_line ''of the Board'' 12 False 115,
         example_line ''for 2023'' 12.5 False 130])
      = [asc ''Annual Report of the Board for 2023'']"
    by code_simp
  show ?thesis
    using m1 m2 m3 t
      reconstruct_text_blocks_merging [where cfg = get_default_config and rt = ascii_ucd
        and n = 0
        and ?l1.0 = "example_line ''Annual Report'' 12 False 100"
        and ?l2.0 = "example_line ''of the Board'' 12 False 115"
        and ?l3.0 = "example_line ''for 2023'' 12.5 False 130"
        and a = "example_line ''for 2023'' 12.5 False 130"
        and b = "example_line ''Chapter One'' 12 True 145"
        and xs = "[example_line ''Annual Report'' 12 False 100, example_line ''of the Board'' 12 False 115]"
        and ys = "[]"]
    by blast
qed

section \<open>Claims about candidate clustering\<close>

lemma reconstruct_text_blocks_total:
  "lines \<noteq> [] \<Longrightarrow> \<exists>fs. reconstruct_text_blocks cfg rt lines n = Inr fs"
  by (cases lines) (simp_all add: reconstruct_text_blocks_def)

lemma pages_texts_total: "\<exists>T. pages_texts cfg rt n doc = Inr T"
proof (induction doc arbitrary: n)
  case Nil
  then show ?case by simp
next
  case (Cons blocks pages)
  obtain T where T: "pages_texts cfg rt (n + 1) pages = Inr T"
    using Cons.IH by blast
  show ?case
  proof (cases "lines_of_page rt blocks = []")
    case True
    then show ?thesis using T by simp
  next
    case False
    then have "sort_key y_pos (lines_of_page rt blocks) \<noteq> []"
      by (metis length_sort list.size(3) length_0_conv)
    then obtain fs where
      "reconstruct_text_blocks cfg rt (sort_key y_pos (lines_of_page rt blocks)) n = Inr fs"
      using reconstruct_text_blocks_total by blast
    then show ?thesis using T False by simp
  qed
qed

lemma first_seen_distinct: "distinct (first_seen ls)"
  by (simp add: first_seen_def)

lemma first_seen_set: "set (first_seen ls) = set ls"
  by (simp add: first_seen_def)

lemma mset_clusters:
  "distinct ks \<Longrightarrow>
   mset (concat (map (\<lambda>k. if Q k then map fst (filter (\<lambda>p. snd p = k) ps) else []) ks)) =
     image_mset fst (filter_mset (\<lambda>p. snd p \<in> set ks \<and> Q (snd p)) (mset ps))"
proof (induction ks)
  case Nil
  then show ?case by simp
next
  case (Cons k ks)
  have split: "filter_mset (\<lambda>p. snd p \<in> set (k # ks) \<and> Q (snd p)) (mset ps)
      = filter_mset (\<lambda>p. snd p = k \<and> Q k) (mset ps)
        + filter_mset (\<lambda>p. snd p \<in> set ks \<and> Q (snd p)) (mset ps)"
    using Cons.prems by (induction ps) auto
  have head: "mset (if Q k then map fst (filter (\<lambda>p. snd p = k) ps) else [])
      = image_mset fst (filter_mset (\<lambda>p. snd p = k \<and> Q k) (mset ps))"
    by (induction ps) auto
  show ?case
    using Cons head split by simp
qed

lemma mset_selected_clusters:
  "mset (concat (map (\<lambda>c. if Q c then map fst (filter (\<lambda>p. snd p = c) (zip T ls)) else [])
                     (first_seen ls))) =
     image_mset fst (filter_mset (\<lambda>p. Q (snd p)) (mset (zip T ls)))"
proof -
  have "filter_mset (\<lambda>p. snd p \<in> set (first_seen ls) \<and> Q (snd p)) (mset (zip T ls))
      = filter_mset (\<lambda>p. Q (snd p)) (mset (zip T ls))"
    by (rule filter_mset_cong) (auto simp: first_seen_set dest: set_zip_rightD)
  then show ?thesis
    using mset_clusters [OF first_seen_distinct, of Q "zip T ls" ls] by simp
qed

text \<open>
  Claim C5.  The reconstruction of the pages never fails, and the candidates are
  computed from its fragments.  With fewer than 5 fragments all of them are returned.
  Otherwise, for a cluster ratio other than 0 and \<open>k\<close> the smaller of the maximal number
  of clusters and the fragment count divided (rounding down) by the ratio: if \<open>k\<close> is
  below the minimal number of clusters all fragments are returned; else, when the
  clustering labels every fragment, the result is the members of the clusters that score
  at least 5, cluster by cluster in the order the labels first occur.  As a multiset it
  is the fragments whose cluster scores at least 5: a fragment is returned or not with
  its whole cluster.
\<close>

theorem clustering_fallback:
  fixes T :: "fragment list" and cfg :: config and rt :: ucd
    and kmeans :: "int \<Rightarrow> real list list \<Rightarrow> nat list"
  defines "k \<equiv> min (max_clusters cfg) (int (length T) div cluster_ratio cfg)"
  defines "labels \<equiv> kmeans k (map (feature_vector rt) T)"
  shows "(\<exists>T0. pages_texts cfg rt 0 doc = Inr T0
            \<and> get_ml_heading_candidates cfg rt kmeans doc = candidates_of_texts cfg rt kmeans T0)
    \<and> (length T < 5 \<longrightarrow> candidates_of_texts cfg rt kmeans T = Inr T)
    \<and> (5 \<le> length T \<and> cluster_ratio cfg \<noteq> 0 \<and> k < min_clusters cfg \<longrightarrow>
          candidates_of_texts cfg rt kmeans T = Inr T)
    \<and> (5 \<le> length T \<and> cluster_ratio cfg \<noteq> 0 \<and> min_clusters cfg \<le> k
          \<and> length labels = length T \<longrightarrow>
          (\<exists>R. candidates_of_texts cfg rt kmeans T = Inr R
             \<and> R = concat (map (\<lambda>c. if 5 \<le> cluster_score_of cfg rt (cluster_members T labels c)
                                      then cluster_members T labels c else [])
                               (first_seen labels))
             \<and> mset R = image_mset fst
                 (filter_mset (\<lambda>p. 5 \<le> cluster_score_of cfg rt (cluster_members T labels (snd p)))
                    (mset (zip T labels)))))"
proof -
  have 1: "\<exists>T0. pages_texts cfg rt 0 doc = Inr T0
            \<and> get_ml_heading_candidates cfg rt kmeans doc = candidates_of_texts cfg rt kmeans T0"
    using pages_texts_total [of cfg rt 0 doc] by (auto simp: get_ml_heading_candidates_def)
  have 2: "candidates_of_texts cfg rt kmeans T = Inr T" if "length T < 5"
    using that by (simp add: candidates_of_texts_def)
  have 3: "candidates_of_texts cfg rt kmeans T = Inr T"
    if "5 \<le> length T" "cluster_ratio cfg \<noteq> 0" "k < min_clusters cfg"
    using that by (simp add: candidates_of_texts_def cluster_headings_def k_def Let_def)
  have 4: "candidates_of_texts cfg rt kmeans T =
        Inr (concat (map (\<lambda>c. if 5 \<le> cluster_score_of cfg rt (cluster_members T labels c)
                                      then cluster_members T labels c else [])
                               (first_seen labels)))"
    if "5 \<le> length T" "cluster_ratio cfg \<noteq> 0" "min_clusters cfg \<le> k" "length labels = length T"
  proof -
    have f1: "(length T < 5) = False" using that(1) by simp
    have f2: "(cluster_ratio cfg = 0) = False" using that(2) by simp
    have f3: "(k < min_clusters cfg) = False" using that(3) by simp
    have f4: "(length T < length labels) = False" using that(4) by simp
    have "candidates_of_texts cfg rt kmeans T = select_heading_candidates cfg rt T labels"
      unfolding candidates_of_texts_def cluster_headings_def Let_def
      unfolding k_def [symmetric] labels_def [symmetric]
      by (simp only: f1 f2 f3 if_False)
    then show ?thesis
      unfolding select_heading_candidates_def Let_def
      by (simp only: f4 if_False)
  qed
  have 5: "mset (concat (map (\<lambda>c. if 5 \<le> cluster_score_of cfg rt (cluster_members T labels c)
                                      then cluster_members T labels c else [])
                               (first_seen labels)))
      = image_mset fst
          (filter_mset (\<lambda>p. 5 \<le> cluster_score_of cfg rt (cluster_members T labels (snd p)))
             (mset (zip T labels)))"
    using mset_selected_clusters
      [of "\<lambda>c. 5 \<le> cluster_score_of cfg rt (cluster_members T labels c)" T labels]
    unfolding cluster_members_def .
  show ?thesis
    using 1 2 3 4 5 unfolding k_def labels_def by blast
qed

theorem clustering_fallback_witness:
  "5 \<le> length [example_fragment ''1. Introduction'' 1 100, example_body ''the quick brown fox jumps over the lazy dog'' 5 120,
         example_fragment ''2. Project Scope'' 1 300, example_body ''pack my box with five dozen liquor jugs now'' 5 320,
         example_fragment ''3. Budget Plan'' 2 100, example_body ''how vexingly quick daft zebras jump today'' 6 120]
   \<and> cluster_ratio get_default_config \<noteq> 0
   \<and> candidates_of_texts get_default_config ascii_ucd (\<lambda>k fs. [0, 1, 0, 1, 0, 1])
        [example_fragment ''1. Introduction'' 1 100, example_body ''the quick brown fox jumps over the lazy dog'' 5 120,
         example_fragment ''2. Project Scope'' 1 300, example_body ''pack my box with five dozen liquor jugs now'' 5 320,
         example_fragment ''3. Budget Plan'' 2 100, example_body ''how vexingly quick daft zebras jump today'' 6 120]
      = Inr [example_fragment ''1. Introduction'' 1 100, example_fragment ''2. Project Scope'' 1 300,
             example_fragment ''3. Budget Plan'' 2 100]
   \<and> candidates_of_texts get_default_config ascii_ucd (\<lambda>k fs. [])
        [example_fragment ''1. Introduction'' 1 100, example_body ''the quick brown fox jumps over the lazy dog'' 5 120]
      = Inr [example_fragment ''1. Introduction'' 1 100, example_body ''the quick brown fox jumps over the lazy dog'' 5 120]"
proof -
  let ?T = "[example_fragment ''1. Introduction'' 1 100, example_body ''the quick brown fox jumps over the lazy dog'' 5 120,
         example_fragment ''2. Project Scope'' 1 300, example_body ''pack my box with five dozen liquor jugs now'' 5 320,
         example_fragment ''3. Budget Plan'' 2 100, example_body ''how vexingly quick daft zebras jump today'' 6 120]"
  let ?S = "[example_fragment ''1. Introduction'' 1 100, example_body ''the quick brown fox jumps over the lazy dog'' 5 120]"
  have a: "5 \<le> length ?T" by simp
  have b: "cluster_ratio get_default_config \<noteq> 0" by (simp add: get_default_config_def)
  have c: "candidates_of_texts get_default_config ascii_ucd (\<lambda>k fs. [0, 1, 0, 1, 0, 1]) ?T
      = Inr [example_fragment ''1. Introduction'' 1 100, example_fragment ''2. Project Scope'' 1 300,
             example_fragment ''3. Budget Plan'' 2 100]"
    by code_simp
  have d: "candidates_of_texts get_default_config ascii_ucd (\<lambda>k fs. []) ?S = Inr ?S"
    using clustering_fallback [where T = ?S and cfg = get_default_config and rt = ascii_ucd
        and kmeans = "\<lambda>k fs. []" and doc = "[]"]
    by simp
  show ?thesis using a b c d by blast
qed


section \<open>Claims about the candidate filter\<close>

lemma filter_loop_idempotent:
  "filter_loop cfg rt profile seen cs = Inr out \<Longrightarrow> filter_loop cfg rt profile seen out = Inr out"
proof (induction cs arbitrary: seen out)
  case Nil
  then show ?case by simp
next
  case (Cons c cs)
  show ?case
  proof (cases "keep_candidate cfg rt profile seen c")
    case (Inl e)
    with Cons.prems show ?thesis by simp
  next
    case (Inr keep)
    show ?thesis
    proof (cases keep)
      case False
      with Inr Cons.prems have "filter_loop cfg rt profile seen cs = Inr out" by simp
      then show ?thesis by (rule Cons.IH)
    next
      case True
      with Inr Cons.prems obtain out' where
        rest: "filter_loop cfg rt profile (strip rt (ftext c) # seen) cs = Inr out'"
        and out: "out = c # out'"
        by (auto split: sum.splits)
      have "filter_loop cfg rt profile (strip rt (ftext c) # seen) out' = Inr out'"
        using rest by (rule Cons.IH)
      then show ?thesis using Inr True out by simp
    qed
  qed
qed

lemma keep_candidate_total:
  assumes "is_technical profile \<longrightarrow> is_form profile \<or> is_academic profile \<or> max_technical_heading cfg \<noteq> None"
  shows "\<exists>b. keep_candidate cfg rt profile seen c = Inr b"
proof -
  have p: "\<exists>b. passes_document_filters cfg profile t tl = Inr b" for t tl
    using assms by (auto simp: passes_document_filters_def)
  have g: "t \<noteq> [] \<Longrightarrow> \<exists>b. has_good_heading_structure cfg rt t = Inr b" for t
    by (cases t) (auto simp: has_good_heading_structure_def)
  show ?thesis
  proof (cases "length (strip rt (ftext c)) < 8")
    case True
    then show ?thesis by (auto simp: keep_candidate_def Let_def)
  next
    case False
    then have ne: "strip rt (ftext c) \<noteq> []" by auto
    obtain b1 where b1: "passes_document_filters cfg profile (strip rt (ftext c))
        (u_tolower rt (strip rt (ftext c))) = Inr b1"
      using p by blast
    obtain b2 where b2: "has_good_heading_structure cfg rt (strip rt (ftext c)) = Inr b2"
      using g [OF ne] by blast
    show ?thesis
      using b1 b2 by (cases b1) (auto simp: keep_candidate_def Let_def)
  qed
qed

lemma filter_loop_total:
  assumes "is_technical profile \<longrightarrow> is_form profile \<or> is_academic profile \<or> max_technical_heading cfg \<noteq> None"
  shows "\<exists>out. filter_loop cfg rt profile seen cs = Inr out"
proof (induction cs arbitrary: seen)
  case Nil
  then show ?case by simp
next
  case (Cons c cs)
  obtain b where b: "keep_candidate cfg rt profile seen c = Inr b"
    using keep_candidate_total [OF assms] by blast
  obtain o1 where o1: "filter_loop cfg rt profile seen cs = Inr o1"
    using Cons.IH by blast
  obtain o2 where o2: "filter_loop cfg rt profile (strip rt (ftext c) # seen) cs = Inr o2"
    using Cons.IH by blast
  show ?case using b o1 o2 by (cases b) simp_all
qed

text \<open>
  Claim C3.  Whenever the filter returns a list, filtering that list again with the same
  configuration and profile returns it unchanged: each kept candidate meets, in the
  second pass, the same set of texts seen as in the first.  The filter returns a list for
  every candidate list unless the technical branch is taken and the configuration has no
  key \<^verbatim>\<open>max_technical_heading\<close>.
\<close>

theorem filter_candidates_idempotent:
  "(filter_candidates cfg rt profile cs = Inr out \<longrightarrow>
      filter_candidates cfg rt profile out = Inr out)
   \<and> ((is_technical profile \<longrightarrow> is_form profile \<or> is_academic profile
          \<or> max_technical_heading cfg \<noteq> None) \<longrightarrow>
      (\<exists>out. filter_candidates cfg rt profile cs = Inr out))"
proof -
  have "filter_candidates cfg rt profile out = Inr out"
    if "filter_candidates cfg rt profile cs = Inr out"
  proof (cases "cs = []")
    case True
    with that show ?thesis by (simp add: filter_candidates_def)
  next
    case False
    with that have "filter_loop cfg rt profile [] cs = Inr out"
      by (simp add: filter_candidates_def)
    then have "filter_loop cfg rt profile [] out = Inr out"
      by (rule filter_loop_idempotent)
    then show ?thesis by (simp add: filter_candidates_def)
  qed
  moreover have "\<exists>out. filter_candidates cfg rt profile cs = Inr out"
    if "is_technical profile \<longrightarrow> is_form profile \<or> is_academic profile
          \<or> max_technical_heading cfg \<noteq> None"
    using filter_loop_total [OF that, of rt "[]" cs] by (simp add: filter_candidates_def)
  ultimately show ?thesis by blast
qed

theorem filter_candidates_idempotent_witness:
  "filter_candidates get_default_config ascii_ucd simple_profile
     [example_fragment ''1. Introduction'' 1 100, example_fragment ''Page 12'' 1 120,
      example_fragment ''1. Introduction'' 2 100, example_fragment ''Project Scope Details'' 2 200,
      example_fragment ''Details Project Scope'' 3 200]
     = Inr [example_fragment ''1. Introduction'' 1 100, example_fragment ''Project Scope Details'' 2 200]
   \<and> filter_candidates get_default_config ascii_ucd simple_profile
     [example_fragment ''1. Introduction'' 1 100, example_fragment ''Project Scope Details'' 2 200]
     = Inr [example_fragment ''1. Introduction'' 1 100, example_fragment ''Project Scope Details'' 2 200]"
proof -
  have a: "filter_candidates get_default_config ascii_ucd simple_profile
     [example_fragment ''1. Introduction'' 1 100, example_fragment ''Page 12'' 1 120,
      example_fragment ''1. Introduction'' 2 100, example_fragment ''Project Scope Details'' 2 200,
      example_fragment ''Details Project Scope'' 3 200]
     = Inr [example_fragment ''1. Introduction'' 1 100, example_fragment ''Project Scope Details'' 2 200]"
    by code_simp
  show ?thesis
    using a filter_candidates_idempotent [where cfg = get_default_config and rt = ascii_ucd
        and profile = simple_profile
        and cs = "[example_fragment ''1. Introduction'' 1 100, example_fragment ''Page 12'' 1 120,
      example_fragment ''1. Introduction'' 2 100, example_fragment ''Project Scope Details'' 2 200,
      example_fragment ''Details Project Scope'' 3 200]"
        and out = "[example_fragment ''1. Introduction'' 1 100, example_fragment ''Project Scope Details'' 2 200]"]
    by blast
qed


section \<open>Claims about the handling of errors\<close>







text \<open>
  An exception that is not an error, such as an interrupt from the keyboard while the file
  is opened, passes through the handler.
\<close>

lemma extract_structure_interrupt:
  "fitz_open self pdf_path = Inl KeyboardInterrupt
   \<Longrightarrow> returned (extract_structure rt self pdf_path) = Inl KeyboardInterrupt"
  by (simp add: extract_structure_def extract_structure_body_def)
end
